theory Spec2Isabelle
  imports Complex_Main "HOL-Library.Stream" "HOL-Library.Word" "HOL-Library.Multiset"
begin

section \<open>The numeric model\<close>

text \<open>
  The program computes on Go \<^verbatim>\<open>float64\<close> values. A value is modelled as a real number
  or one of the three special values of IEEE 754: the two infinities and NaN. The
  operations follow the IEEE rules for the special values (NaN is absorbing, a nonzero
  number divided by zero is an infinity, \<open>0 / 0\<close> and \<open>\<infinity> - \<infinity>\<close> are NaN, \<open>log10 0 = -\<infinity>\<close>)
  and are exact on finite values: rounding, overflow, underflow and the sign of zero are
  outside the model (a zero divisor counts as \<open>+0\<close>). The one place where the code modelled
  here turns a \<^verbatim>\<open>float64\<close> into an integer is the sample count of the time vector; there, and
  for the timestamps, the operations are followed by the rounding of IEEE 754
  (\<open>rounded\<close>, below).
\<close>

datatype float64 = Fin real | PInf | NInf | NaN

fun fneg :: "float64 \<Rightarrow> float64" where
  "fneg (Fin a) = Fin (- a)"
| "fneg PInf = NInf"
| "fneg NInf = PInf"
| "fneg NaN = NaN"

fun fadd :: "float64 \<Rightarrow> float64 \<Rightarrow> float64" where
  "fadd (Fin a) (Fin b) = Fin (a + b)"
| "fadd NaN y = NaN"
| "fadd x NaN = NaN"
| "fadd PInf NInf = NaN"
| "fadd NInf PInf = NaN"
| "fadd PInf y = PInf"
| "fadd x PInf = PInf"
| "fadd NInf y = NInf"
| "fadd x NInf = NInf"

definition fsub :: "float64 \<Rightarrow> float64 \<Rightarrow> float64" where
  "fsub x y = fadd x (fneg y)"

fun fmul :: "float64 \<Rightarrow> float64 \<Rightarrow> float64" where
  "fmul (Fin a) (Fin b) = Fin (a * b)"
| "fmul NaN y = NaN"
| "fmul x NaN = NaN"
| "fmul PInf (Fin b) = (if b = 0 then NaN else if 0 < b then PInf else NInf)"
| "fmul NInf (Fin b) = (if b = 0 then NaN else if 0 < b then NInf else PInf)"
| "fmul (Fin a) PInf = (if a = 0 then NaN else if 0 < a then PInf else NInf)"
| "fmul (Fin a) NInf = (if a = 0 then NaN else if 0 < a then NInf else PInf)"
| "fmul PInf PInf = PInf"
| "fmul PInf NInf = NInf"
| "fmul NInf PInf = NInf"
| "fmul NInf NInf = PInf"

fun fdiv :: "float64 \<Rightarrow> float64 \<Rightarrow> float64" where
  "fdiv (Fin a) (Fin b) =
     (if b = 0 then (if a = 0 then NaN else if 0 < a then PInf else NInf) else Fin (a / b))"
| "fdiv NaN y = NaN"
| "fdiv x NaN = NaN"
| "fdiv (Fin a) PInf = Fin 0"
| "fdiv (Fin a) NInf = Fin 0"
| "fdiv PInf (Fin b) = (if 0 \<le> b then PInf else NInf)"
| "fdiv NInf (Fin b) = (if 0 \<le> b then NInf else PInf)"
| "fdiv PInf PInf = NaN"
| "fdiv PInf NInf = NaN"
| "fdiv NInf PInf = NaN"
| "fdiv NInf NInf = NaN"

text \<open>\<^verbatim>\<open>math.Abs\<close>, \<^verbatim>\<open>math.Sqrt\<close>, \<^verbatim>\<open>math.Sin\<close>, \<^verbatim>\<open>math.Log10\<close> and \<^verbatim>\<open>math.Pow(10, y)\<close>.\<close>

fun fabs :: "float64 \<Rightarrow> float64" where
  "fabs (Fin a) = Fin \<bar>a\<bar>"
| "fabs PInf = PInf"
| "fabs NInf = PInf"
| "fabs NaN = NaN"

fun fsqrt :: "float64 \<Rightarrow> float64" where
  "fsqrt (Fin a) = (if a < 0 then NaN else Fin (sqrt a))"
| "fsqrt PInf = PInf"
| "fsqrt NInf = NaN"
| "fsqrt NaN = NaN"

fun fsin :: "float64 \<Rightarrow> float64" where
  "fsin (Fin a) = Fin (sin a)"
| "fsin PInf = NaN"
| "fsin NInf = NaN"
| "fsin NaN = NaN"

fun flog10 :: "float64 \<Rightarrow> float64" where
  "flog10 (Fin a) = (if a < 0 then NaN else if a = 0 then NInf else Fin (log 10 a))"
| "flog10 PInf = PInf"
| "flog10 NInf = NaN"
| "flog10 NaN = NaN"

fun fpow10 :: "float64 \<Rightarrow> float64" where
  "fpow10 (Fin y) = Fin (10 powr y)"
| "fpow10 PInf = PInf"
| "fpow10 NInf = Fin 0"
| "fpow10 NaN = NaN"

text \<open>The comparisons \<^verbatim>\<open>x > y\<close>, \<^verbatim>\<open>x >= y\<close> and \<^verbatim>\<open>x == y\<close>: false whenever an operand is NaN.\<close>

fun fgt :: "float64 \<Rightarrow> float64 \<Rightarrow> bool" where
  "fgt (Fin a) (Fin b) = (b < a)"
| "fgt NaN y = False"
| "fgt x NaN = False"
| "fgt NInf y = False"
| "fgt x PInf = False"
| "fgt PInf y = True"
| "fgt x NInf = True"

definition feq :: "float64 \<Rightarrow> float64 \<Rightarrow> bool" where
  "feq x y = (x \<noteq> NaN \<and> x = y)"

definition fge :: "float64 \<Rightarrow> float64 \<Rightarrow> bool" where
  "fge x y = (fgt x y \<or> feq x y)"

fun isFinite :: "float64 \<Rightarrow> bool" where
  "isFinite (Fin a) = True"
| "isFinite x = False"

text \<open>
  The conversion \<^verbatim>\<open>int(x)\<close> truncates towards zero. Go leaves the result open when the
  value is not representable (NaN, an infinity, outside 64 bits): \<open>None\<close>.
  \<^verbatim>\<open>float64(n)\<close> is exact in the model.
\<close>

definition goInt :: "float64 \<Rightarrow> int option" where
  "goInt x =
     (case x of
        Fin r \<Rightarrow>
          (let n = (if 0 \<le> r then \<lfloor>r\<rfloor> else \<lceil>r\<rceil>)
           in if - (2 ^ 63) \<le> n \<and> n < 2 ^ 63 then Some n else None)
      | PInf \<Rightarrow> None
      | NInf \<Rightarrow> None
      | NaN \<Rightarrow> None)"

definition ofInt :: "int \<Rightarrow> float64" where
  "ofInt n = Fin (of_int n)"

definition ofNat :: "nat \<Rightarrow> float64" where
  "ofNat n = Fin (of_nat n)"

text \<open>A running sum \<^verbatim>\<open>sum := 0.0; for ... { sum += x }\<close>, added left to right.\<close>

definition fsum :: "float64 list \<Rightarrow> float64" where
  "fsum xs = foldl fadd (Fin 0) xs"

text \<open>
  Rounding to \<^verbatim>\<open>float64\<close> (binary64, round to nearest, ties to even). A nonzero real \<open>x\<close>
  with \<open>2^L \<le> \<bar>x\<bar> < 2^(L+1)\<close> lies on or between two neighbours of the grid of spacing
  \<open>2^(L-52)\<close>, where \<open>L\<close> is not taken below \<open>-1022\<close> (the subnormal range has the spacing
  \<open>2^(-1074)\<close>); it goes to the nearer one, and to the one with the even significand when
  both are equally near. A result of magnitude \<open>2^1024\<close> or more overflows to an
  infinity. \<open>rounded\<close> is the rounding of an exact result.
\<close>

definition roundHalfEven :: "real \<Rightarrow> int" where
  "roundHalfEven x =
     (let f = \<lfloor>x\<rfloor>; r = x - of_int f
      in if r < 1 / 2 then f else if 1 / 2 < r then f + 1 else if even f then f else f + 1)"

definition ulpExponent :: "real \<Rightarrow> int" where
  "ulpExponent x = max \<lfloor>log 2 \<bar>x\<bar>\<rfloor> (- 1022) - 52"

definition overflowThreshold :: real where
  "overflowThreshold = 2 ^ 1024"

definition rnd64 :: "real \<Rightarrow> float64" where
  "rnd64 x =
     (if x = 0 then Fin 0
      else
        (let e = ulpExponent x;
             y = real_of_int (roundHalfEven (x / 2 powr real_of_int e)) * 2 powr real_of_int e
         in if overflowThreshold \<le> \<bar>y\<bar> then (if 0 < y then PInf else NInf) else Fin y))"

definition rounded :: "float64 \<Rightarrow> float64" where
  "rounded x = (case x of Fin r \<Rightarrow> rnd64 r | PInf \<Rightarrow> PInf | NInf \<Rightarrow> NInf | NaN \<Rightarrow> NaN)"

section \<open>Data model\<close>

record SignalParams =
  SamplingRate :: float64
  Duration :: float64
  MessageFreq :: float64
  CarrierFreq :: float64
  MessageAmp :: float64
  CarrierAmp :: float64
  ModulationIdx :: float64

record Signal =
  Time :: "float64 list"
  Values :: "float64 list"

text \<open>\<^verbatim>\<open>type ModulationType string\<close> with the two constants \<^verbatim>\<open>AM\<close> and \<^verbatim>\<open>FM\<close>.\<close>

type_synonym ModulationType = string

definition AM :: ModulationType where
  "AM = ''AM''"

definition FM :: ModulationType where
  "FM = ''FM''"

record PerformanceResult =
  InputSNR_dB :: float64
  OutputSNR_dB :: float64
  StdDev :: float64
  ModulationType :: ModulationType
  NumTrials :: int

text \<open>
  The run-time panics the code can raise: \<^verbatim>\<open>make\<close> with a length out of range, an index
  out of range, and (not a panic of its own, but a result Go does not define) a
  float-to-int conversion of a value that \<^verbatim>\<open>int\<close> cannot hold.
\<close>

datatype panic = MakesliceLenOutOfRange | IndexOutOfRange | FloatToIntUndefined

text \<open>
  \<^verbatim>\<open>make([]float64, n)\<close> panics (``makeslice: len out of range'') when \<open>n\<close> is negative or
  when the \<open>8 * n\<close> bytes exceed the runtime's \<^verbatim>\<open>maxAlloc\<close>, which is \<open>2^48\<close> on the 64-bit
  platforms: the longest slice has \<open>2^45\<close> elements. An allocation within that limit is
  taken to succeed; running out of memory is a fatal error of the runtime, outside the
  model.
\<close>

definition maxSliceLen :: int where
  "maxSliceLen = 2 ^ 45"

definition makeslicePanics :: "int \<Rightarrow> bool" where
  "makeslicePanics n = (n < 0 \<or> maxSliceLen < n)"

section \<open>Waveform generators (\<^verbatim>\<open>main.go\<close>)\<close>

definition twoPi :: float64 where
  "twoPi = Fin (2 * pi)"

text \<open>
  \<^verbatim>\<open>generateTimeVector\<close>: \<^verbatim>\<open>numSamples := int(SamplingRate * Duration)\<close>,
  \<^verbatim>\<open>make([]float64, numSamples)\<close>, \<^verbatim>\<open>dt := 1.0 / SamplingRate\<close>, \<^verbatim>\<open>time[i] = float64(i) * dt\<close>.
  The product that is truncated, the quotient \<open>dt\<close> and each timestamp are rounded
  \<^verbatim>\<open>float64\<close> results; \<^verbatim>\<open>float64(i)\<close> is exact for every index of a slice.
\<close>

definition generateTimeVector :: "SignalParams \<Rightarrow> panic + float64 list" where
  "generateTimeVector params =
     (case goInt (rounded (fmul (SamplingRate params) (Duration params))) of
        None \<Rightarrow> Inl FloatToIntUndefined
      | Some numSamples \<Rightarrow>
          if makeslicePanics numSamples then Inl MakesliceLenOutOfRange
          else
            (let dt = rounded (fdiv (Fin 1) (SamplingRate params))
             in Inr (map (\<lambda>i. rounded (fmul (ofNat i) dt)) [0..<nat numSamples])))"

definition message :: "SignalParams \<Rightarrow> float64 \<Rightarrow> float64" where
  "message params t =
     fmul (MessageAmp params) (fsin (fmul (fmul twoPi (MessageFreq params)) t))"

definition generateBaseband :: "SignalParams \<Rightarrow> panic + Signal" where
  "generateBaseband params =
     (case generateTimeVector params of
        Inl e \<Rightarrow> Inl e
      | Inr time \<Rightarrow> Inr \<lparr>Time = time, Values = map (message params) time\<rparr>)"

definition generateCarrier :: "SignalParams \<Rightarrow> panic + Signal" where
  "generateCarrier params =
     (case generateTimeVector params of
        Inl e \<Rightarrow> Inl e
      | Inr time \<Rightarrow>
          Inr \<lparr>Time = time,
               Values = map (\<lambda>t. fmul (CarrierAmp params)
                                  (fsin (fmul (fmul twoPi (CarrierFreq params)) t))) time\<rparr>)"

definition generateAM :: "SignalParams \<Rightarrow> panic + Signal" where
  "generateAM params =
     (case generateTimeVector params of
        Inl e \<Rightarrow> Inl e
      | Inr time \<Rightarrow>
          Inr \<lparr>Time = time,
               Values = map (\<lambda>t.
                 fmul (fmul (CarrierAmp params)
                            (fadd (Fin 1) (fmul (ModulationIdx params) (message params t))))
                      (fsin (fmul (fmul twoPi (CarrierFreq params)) t))) time\<rparr>)"

text \<open>
  \<^verbatim>\<open>generateFM\<close>: the loop carries the running trapezoidal integral; \<open>prev\<close> is
  \<^verbatim>\<open>time[i-1]\<close>, absent at \<open>i = 0\<close>.
\<close>

fun generateFM_loop ::
  "SignalParams \<Rightarrow> float64 \<Rightarrow> float64 option \<Rightarrow> float64 \<Rightarrow> float64 list \<Rightarrow> float64 list" where
  "generateFM_loop params dt prev integral [] = []"
| "generateFM_loop params dt prev integral (t # ts) =
     (let msg = message params t;
          integral' =
            (case prev of
               None \<Rightarrow> integral
             | Some tp \<Rightarrow>
                 fadd integral
                   (fdiv (fmul (fadd msg (message params tp)) dt) (Fin 2)));
          instantaneousPhase =
            fadd (fmul (fmul twoPi (CarrierFreq params)) t)
                 (fmul (ModulationIdx params) integral')
      in fmul (CarrierAmp params) (fsin instantaneousPhase)
         # generateFM_loop params dt (Some t) integral' ts)"

definition generateFM :: "SignalParams \<Rightarrow> panic + Signal" where
  "generateFM params =
     (case generateTimeVector params of
        Inl e \<Rightarrow> Inl e
      | Inr time \<Rightarrow>
          (let dt = fdiv (Fin 1) (SamplingRate params)
           in Inr \<lparr>Time = time, Values = generateFM_loop params dt None (Fin 0) time\<rparr>))"

section \<open>Noise injector\<close>

text \<open>
  A generator handle (\<^verbatim>\<open>*rand.Rand\<close>, or the process-wide default source) is modelled by
  the stream of the values its successive \<^verbatim>\<open>NormFloat64\<close> calls return: a call reads the
  head and leaves the tail. The library behind it is not part of the repository.
\<close>

type_synonym rng = "float64 stream"

definition signalPower :: "float64 list \<Rightarrow> float64" where
  "signalPower vals = fdiv (foldl (\<lambda>acc val. fadd acc (fmul val val)) (Fin 0) vals)
                           (ofNat (length vals))"

definition noiseStdDev :: "float64 list \<Rightarrow> float64 \<Rightarrow> float64" where
  "noiseStdDev vals snrDB =
     (let snrLinear = fpow10 (fdiv snrDB (Fin 10));
          noiseVariance = fdiv (signalPower vals) snrLinear
      in fsqrt noiseVariance)"

text \<open>\<^verbatim>\<open>addAWGNWithRNG\<close>: \<^verbatim>\<open>noise := rng.NormFloat64() * noiseStdDev\<close>, one draw per sample.\<close>

fun addNoiseRNG :: "float64 \<Rightarrow> float64 list \<Rightarrow> rng \<Rightarrow> float64 list \<times> rng" where
  "addNoiseRNG sd [] g = ([], g)"
| "addNoiseRNG sd (val # vals) g =
     (let noise = fmul (shd g) sd;
          (rest, g') = addNoiseRNG sd vals (stl g)
      in (fadd val noise # rest, g'))"

definition addAWGNWithRNG :: "Signal \<Rightarrow> float64 \<Rightarrow> rng \<Rightarrow> Signal \<times> rng" where
  "addAWGNWithRNG signal snrDB g =
     (let (vals, g') = addNoiseRNG (noiseStdDev (Values signal) snrDB) (Values signal) g
      in (\<lparr>Time = Time signal, Values = vals\<rparr>, g'))"

text \<open>
  \<^verbatim>\<open>addAWGN\<close> draws from \<^verbatim>\<open>distuv.Normal{Mu: 0, Sigma: noiseStdDev}\<close> with no source of
  its own, that is from the default generator. The sampler belongs to the gonum library;
  it returns \<open>z * Sigma + Mu\<close> for a standard normal draw \<open>z\<close>.
\<close>

definition normalRand :: "float64 \<Rightarrow> float64 \<Rightarrow> float64 \<Rightarrow> float64" where
  "normalRand mu sigma z = fadd (fmul z sigma) mu"

fun addNoiseDefault :: "float64 \<Rightarrow> float64 list \<Rightarrow> rng \<Rightarrow> float64 list \<times> rng" where
  "addNoiseDefault sd [] g = ([], g)"
| "addNoiseDefault sd (val # vals) g =
     (let noise = normalRand (Fin 0) sd (shd g);
          (rest, g') = addNoiseDefault sd vals (stl g)
      in (fadd val noise # rest, g'))"

definition addAWGN :: "Signal \<Rightarrow> float64 \<Rightarrow> rng \<Rightarrow> Signal \<times> rng" where
  "addAWGN signal snrDB g =
     (let (vals, g') = addNoiseDefault (noiseStdDev (Values signal) snrDB) (Values signal) g
      in (\<lparr>Time = Time signal, Values = vals\<rparr>, g'))"

section \<open>Demodulators\<close>

text \<open>
  The moving-average loop shared by both demodulators: for index \<open>i\<close> the window is
  \<open>start = max 0 (i - windowSize/2)\<close> to \<open>end = min (n - 1) (i + windowSize/2)\<close>, both
  inclusive, and the output is \<open>sum / float64(count)\<close>.
\<close>

definition windowSize :: nat where
  "windowSize = 20"

definition windowAt :: "float64 list \<Rightarrow> nat \<Rightarrow> float64 list" where
  "windowAt xs i =
     (let start = i - windowSize div 2;
          end = min (length xs - 1) (i + windowSize div 2)
      in take (end + 1 - start) (drop start xs))"

definition movingAverage :: "float64 list \<Rightarrow> float64 list" where
  "movingAverage xs =
     map (\<lambda>i. fdiv (fsum (windowAt xs i)) (ofNat (length (windowAt xs i)))) [0..<length xs]"

definition demodulateAM :: "Signal \<Rightarrow> Signal" where
  "demodulateAM signal =
     (let rectified = map fabs (Values signal)
      in \<lparr>Time = Time signal, Values = movingAverage rectified\<rparr>)"

text \<open>
  \<^verbatim>\<open>demodulateFM\<close>. The quadrature signal is the input delayed by one sample, with
  \<^verbatim>\<open>quadSignal[0] = signal.Values[0]\<close>; that read, and the final
  \<^verbatim>\<open>demodulated.Values[0] = 0.0\<close>, are out of range when the input is empty.
\<close>

definition discriminate ::
  "SignalParams \<Rightarrow> float64 \<Rightarrow> float64 \<Rightarrow> float64 \<Rightarrow> float64 \<Rightarrow> float64 \<Rightarrow> float64" where
  "discriminate params dt I_curr Q_curr I_prev Q_prev =
     (let dI = fsub I_curr I_prev;
          dQ = fsub Q_curr Q_prev;
          numerator = fsub (fmul I_curr dQ) (fmul Q_curr dI);
          denominator = fadd (fmul I_curr I_curr) (fmul Q_curr Q_curr)
      in if fgt denominator (Fin (1 / 10 ^ 10))
         then (let instantFreq = fdiv numerator (fmul (fmul twoPi dt) denominator)
               in fdiv instantFreq (ModulationIdx params))
         else Fin 0)"

definition quadSignal :: "float64 list \<Rightarrow> float64 list" where
  "quadSignal vals = hd vals # butlast vals"

definition rawFM :: "SignalParams \<Rightarrow> float64 list \<Rightarrow> float64 list" where
  "rawFM params vals =
     (let dt = fdiv (Fin 1) (SamplingRate params);
          quad = quadSignal vals
      in Fin 0 # map (\<lambda>i. discriminate params dt (vals ! i) (quad ! i)
                                          (vals ! (i - 1)) (quad ! (i - 1)))
                     [1..<length vals])"

definition demodulateFM :: "Signal \<Rightarrow> SignalParams \<Rightarrow> panic + Signal" where
  "demodulateFM signal params =
     (if Values signal = [] then Inl IndexOutOfRange
      else Inr \<lparr>Time = Time signal, Values = movingAverage (rawFM params (Values signal))\<rparr>)"

section \<open>Signal metrics\<close>

text \<open>
  \<^verbatim>\<open>calculateSNR\<close> walks the indices of \<^verbatim>\<open>original.Values\<close> and reads
  \<^verbatim>\<open>noisy.Values[i]\<close>: a shorter second signal is an index out of range.
\<close>

fun snrLoop :: "float64 list \<Rightarrow> float64 list \<Rightarrow> float64 \<times> float64 \<Rightarrow> float64 \<times> float64" where
  "snrLoop (ov # os) (nv # ns) (sp, np) =
     (let noise = fsub nv ov
      in snrLoop os ns (fadd sp (fmul ov ov), fadd np (fmul noise noise)))"
| "snrLoop os ns acc = acc"

definition calculateSNR :: "Signal \<Rightarrow> Signal \<Rightarrow> panic + float64" where
  "calculateSNR original noisy =
     (if length (Values noisy) < length (Values original) then Inl IndexOutOfRange
      else
        (let (sp, np) = snrLoop (Values original) (Values noisy) (Fin 0, Fin 0);
             n = ofNat (length (Values original));
             signalPower = fdiv sp n;
             noisePower = fdiv np n
         in if feq noisePower (Fin 0) then Inr PInf
            else Inr (fmul (Fin 10) (flog10 (fdiv signalPower noisePower)))))"

text \<open>\<^verbatim>\<open>computeInputSNR\<close> repeats the body of \<^verbatim>\<open>calculateSNR\<close>; \<^verbatim>\<open>computeOutputSNR\<close> calls it.\<close>

definition computeInputSNR :: "Signal \<Rightarrow> Signal \<Rightarrow> panic + float64" where
  "computeInputSNR cleanSignal noisySignal =
     (if length (Values noisySignal) < length (Values cleanSignal) then Inl IndexOutOfRange
      else
        (let (sp, np) = snrLoop (Values cleanSignal) (Values noisySignal) (Fin 0, Fin 0);
             n = ofNat (length (Values cleanSignal));
             signalPower = fdiv sp n;
             noisePower = fdiv np n
         in if feq noisePower (Fin 0) then Inr PInf
            else Inr (fmul (Fin 10) (flog10 (fdiv signalPower noisePower)))))"

definition computeOutputSNR :: "Signal \<Rightarrow> Signal \<Rightarrow> panic + float64" where
  "computeOutputSNR originalMessage demodulatedSignal =
     calculateSNR originalMessage demodulatedSignal"

definition calculateMean :: "float64 list \<Rightarrow> float64" where
  "calculateMean vals = fdiv (fsum vals) (ofNat (length vals))"

definition calculateStdDev :: "float64 list \<Rightarrow> float64 \<Rightarrow> float64" where
  "calculateStdDev vals mean =
     (let sumSquares = foldl (\<lambda>acc val. let diff = fsub val mean in fadd acc (fmul diff diff))
                            (Fin 0) vals;
          variance = fdiv sumSquares (ofInt (int (length vals) - 1))
      in fsqrt variance)"

section \<open>Best-lag alignment (\<^verbatim>\<open>phase7_demodulation_tests.go\<close>)\<close>

text \<open>
  \<^verbatim>\<open>alignSignals\<close>: for each delay from \<open>-maxDelay\<close> to \<open>maxDelay\<close> the products
  \<open>reference[i] * signal[i + delay]\<close> over the overlap are summed and divided by their
  number; a strictly larger mean replaces the best delay. The result is the signal
  shifted by the best delay, zero outside the range.
\<close>

definition overlapIndices :: "nat \<Rightarrow> int \<Rightarrow> nat list" where
  "overlapIndices n delay = filter (\<lambda>i. 0 \<le> int i + delay \<and> int i + delay < int n) [0..<n]"

definition correlationAt :: "float64 list \<Rightarrow> float64 list \<Rightarrow> int \<Rightarrow> float64 option" where
  "correlationAt reference signal delay =
     (let idx = overlapIndices (length reference) delay;
          correlation = foldl (\<lambda>acc i. fadd acc (fmul (reference ! i)
                                                         (signal ! nat (int i + delay))))
                              (Fin 0) idx
      in if idx = [] then None else Some (fdiv correlation (ofNat (length idx))))"

fun searchDelay ::
  "float64 list \<Rightarrow> float64 list \<Rightarrow> int list \<Rightarrow> float64 \<times> int \<Rightarrow> float64 \<times> int" where
  "searchDelay reference signal [] best = best"
| "searchDelay reference signal (delay # delays) (maxCorr, bestDelay) =
     (case correlationAt reference signal delay of
        None \<Rightarrow> searchDelay reference signal delays (maxCorr, bestDelay)
      | Some correlation \<Rightarrow>
          if fgt correlation maxCorr
          then searchDelay reference signal delays (correlation, delay)
          else searchDelay reference signal delays (maxCorr, bestDelay))"

definition maxDelayOf :: "nat \<Rightarrow> int" where
  "maxDelayOf n = (if int n div 10 > 100 then 100 else int n div 10)"

definition alignSignals :: "float64 list \<Rightarrow> float64 list \<Rightarrow> float64 list" where
  "alignSignals reference signal =
     (if length reference \<noteq> length signal then signal
      else
        (let n = length reference;
             maxDelay = maxDelayOf n;
             (maxCorr, bestDelay) =
               searchDelay reference signal [- maxDelay..maxDelay] (NInf, 0)
         in map (\<lambda>i. if 0 \<le> int i + bestDelay \<and> int i + bestDelay < int n
                      then signal ! nat (int i + bestDelay) else Fin 0) [0..<n]))"

section \<open>Trial runner and aggregator (\<^verbatim>\<open>runSingleSNRSimulation\<close>)\<close>

definition emptySignal :: Signal where
  "emptySignal = \<lparr>Time = [], Values = []\<rparr>"

text \<open>
  One pass of the trial loop. A \<^verbatim>\<open>switch\<close> on a modulation type that is neither constant
  leaves the zero \<^verbatim>\<open>Signal\<close>.
\<close>

definition runTrial ::
  "ModulationType \<Rightarrow> SignalParams \<Rightarrow> float64 \<Rightarrow> rng \<Rightarrow> panic + (float64 \<times> rng)" where
  "runTrial modType params targetSNR g =
     (case generateBaseband params of
        Inl e \<Rightarrow> Inl e
      | Inr originalMessage \<Rightarrow>
     (case (if modType = AM then generateAM params
            else if modType = FM then generateFM params
            else Inr emptySignal) of
        Inl e \<Rightarrow> Inl e
      | Inr modulatedSignal \<Rightarrow>
     (let (noisySignal, g') = addAWGNWithRNG modulatedSignal targetSNR g
      in
     (case (if modType = AM then Inr (demodulateAM noisySignal)
            else if modType = FM then demodulateFM noisySignal params
            else Inr emptySignal) of
        Inl e \<Rightarrow> Inl e
      | Inr demodulatedSignal \<Rightarrow>
     (case computeOutputSNR originalMessage demodulatedSignal of
        Inl e \<Rightarrow> Inl e
      | Inr outputSNR \<Rightarrow> Inr (outputSNR, g'))))))"

text \<open>
  \<^verbatim>\<open>runSingleSNRSimulation\<close>: \<^verbatim>\<open>measurements := make([]float64, numIterations)\<close>, the
  trial loop, which hands the generator from each trial to the next, then
  \<^verbatim>\<open>calculateMean\<close> and \<^verbatim>\<open>calculateStdDev\<close>.
\<close>

fun trials ::
  "ModulationType \<Rightarrow> SignalParams \<Rightarrow> float64 \<Rightarrow> nat \<Rightarrow> rng \<Rightarrow> panic + (float64 list \<times> rng)" where
  "trials modType params targetSNR 0 g = Inr ([], g)"
| "trials modType params targetSNR (Suc k) g =
     (case runTrial modType params targetSNR g of
        Inl e \<Rightarrow> Inl e
      | Inr (outputSNR, g') \<Rightarrow>
          (case trials modType params targetSNR k g' of
             Inl e \<Rightarrow> Inl e
           | Inr (rest, g'') \<Rightarrow> Inr (outputSNR # rest, g'')))"

definition runSingleSNRSimulation ::
  "ModulationType \<Rightarrow> SignalParams \<Rightarrow> float64 \<Rightarrow> int \<Rightarrow> rng \<Rightarrow> panic + (PerformanceResult \<times> rng)" where
  "runSingleSNRSimulation modType params targetSNR numIterations g =
     (if makeslicePanics numIterations then Inl MakesliceLenOutOfRange
      else
        (case trials modType params targetSNR (nat numIterations) g of
           Inl e \<Rightarrow> Inl e
         | Inr (measurements, g') \<Rightarrow>
             (let mean = calculateMean measurements;
                  stdDev = calculateStdDev measurements mean
              in Inr (\<lparr>InputSNR_dB = targetSNR, OutputSNR_dB = mean, StdDev = stdDev,
                        ModulationType = modType, NumTrials = numIterations\<rparr>, g'))))"

section \<open>Sweeps with explicit generators (\<^verbatim>\<open>main.go\<close>)\<close>

record MonteCarloConfig =
  NumIterations :: int
  SNRRange :: "float64 list"
  Seed :: "64 word"
  UseParallel :: bool
  NumWorkers :: int
  ProgressReport :: bool
  SaveDetailed :: bool

text \<open>The zero value of \<^verbatim>\<open>PerformanceResult\<close>, as \<^verbatim>\<open>make\<close> fills a fresh slice.\<close>

definition zeroResult :: PerformanceResult where
  "zeroResult = \<lparr>InputSNR_dB = Fin 0, OutputSNR_dB = Fin 0, StdDev = Fin 0,
                  ModulationType = [], NumTrials = 0\<rparr>"

text \<open>
  \<^verbatim>\<open>runSequentialMonteCarloSimulation\<close>: one generator \<^verbatim>\<open>rand.New(rand.NewSource(Seed))\<close>
  for the whole sweep, AM then FM at each point. \<open>newSource\<close> stands for the library's
  seeding.
\<close>

fun sequentialLoop ::
  "SignalParams \<Rightarrow> SignalParams \<Rightarrow> int \<Rightarrow> float64 list \<Rightarrow> rng
   \<Rightarrow> panic + (PerformanceResult list \<times> PerformanceResult list)" where
  "sequentialLoop amParams fmParams numIterations [] g = Inr ([], [])"
| "sequentialLoop amParams fmParams numIterations (snr # snrs) g =
     (case runSingleSNRSimulation AM amParams snr numIterations g of
        Inl e \<Rightarrow> Inl e
      | Inr (amResult, g1) \<Rightarrow>
     (case runSingleSNRSimulation FM fmParams snr numIterations g1 of
        Inl e \<Rightarrow> Inl e
      | Inr (fmResult, g2) \<Rightarrow>
     (case sequentialLoop amParams fmParams numIterations snrs g2 of
        Inl e \<Rightarrow> Inl e
      | Inr (ams, fms) \<Rightarrow>
          Inr (amResult\<lparr>InputSNR_dB := snr\<rparr> # ams, fmResult\<lparr>InputSNR_dB := snr\<rparr> # fms))))"

definition runSequentialMonteCarloSimulation ::
  "(64 word \<Rightarrow> rng) \<Rightarrow> SignalParams \<Rightarrow> SignalParams \<Rightarrow> MonteCarloConfig
   \<Rightarrow> panic + (PerformanceResult list \<times> PerformanceResult list)" where
  "runSequentialMonteCarloSimulation newSource amParams fmParams config =
     sequentialLoop amParams fmParams (NumIterations config) (SNRRange config)
       (newSource (Seed config))"

text \<open>
  \<^verbatim>\<open>runParallelMonteCarloSimulation\<close>. Worker \<open>w\<close> owns the generator seeded
  \<open>Seed + int64(w)\<close> and keeps it from one job to its next. The jobs enter a FIFO channel
  in sweep order, so each worker meets its jobs in increasing index order; which worker
  takes job \<open>i\<close> is the scheduler's choice, given here as \<open>assign i\<close>. Jobs of different
  workers share nothing, hence the jobs are run below in index order with one generator
  per worker. A job yields one message \<open>(index, result)\<close> on each result channel.
\<close>

fun workerJobs ::
  "SignalParams \<Rightarrow> SignalParams \<Rightarrow> int \<Rightarrow> (nat \<Rightarrow> nat) \<Rightarrow> (nat \<Rightarrow> rng)
   \<Rightarrow> (nat \<times> float64) list
   \<Rightarrow> panic + ((nat \<times> PerformanceResult) list \<times> (nat \<times> PerformanceResult) list)" where
  "workerJobs amParams fmParams numIterations assign workerRand [] = Inr ([], [])"
| "workerJobs amParams fmParams numIterations assign workerRand ((snrIndex, targetSNR) # jobs) =
     (let w = assign snrIndex
      in
     (case runSingleSNRSimulation AM amParams targetSNR numIterations (workerRand w) of
        Inl e \<Rightarrow> Inl e
      | Inr (amResult, g1) \<Rightarrow>
     (case runSingleSNRSimulation FM fmParams targetSNR numIterations g1 of
        Inl e \<Rightarrow> Inl e
      | Inr (fmResult, g2) \<Rightarrow>
     (case workerJobs amParams fmParams numIterations assign (workerRand(w := g2)) jobs of
        Inl e \<Rightarrow> Inl e
      | Inr (ams, fms) \<Rightarrow>
          Inr ((snrIndex, amResult\<lparr>InputSNR_dB := targetSNR\<rparr>) # ams,
               (snrIndex, fmResult\<lparr>InputSNR_dB := targetSNR\<rparr>) # fms)))))"

text \<open>
  The collector: \<^verbatim>\<open>results[msg.index] = msg.result\<close> for each message in the order
  of arrival, into a slice of zero values.
\<close>

definition collect :: "nat \<Rightarrow> (nat \<times> PerformanceResult) list \<Rightarrow> PerformanceResult list" where
  "collect n msgs = foldl (\<lambda>results (index, result). results[index := result])
                          (replicate n zeroResult) msgs"

text \<open>
  \<open>amOrder\<close> and \<open>fmOrder\<close> list the job indices in the order in which their messages
  arrive. With no worker (\<open>NumWorkers \<le> 0\<close>) no job is taken and both slices keep their
  zero values. A panic in a worker ends the process.
\<close>

definition runParallelMonteCarloSimulation ::
  "(64 word \<Rightarrow> rng) \<Rightarrow> SignalParams \<Rightarrow> SignalParams \<Rightarrow> MonteCarloConfig
   \<Rightarrow> (nat \<Rightarrow> nat) \<Rightarrow> nat list \<Rightarrow> nat list
   \<Rightarrow> panic + (PerformanceResult list \<times> PerformanceResult list)" where
  "runParallelMonteCarloSimulation newSource amParams fmParams config assign amOrder fmOrder =
     (let n = length (SNRRange config)
      in if NumWorkers config \<le> 0
         then Inr (replicate n zeroResult, replicate n zeroResult)
         else
           (case workerJobs amParams fmParams (NumIterations config) assign
                   (\<lambda>w. newSource (Seed config + of_nat w))
                   (zip [0..<n] (SNRRange config)) of
              Inl e \<Rightarrow> Inl e
            | Inr (ams, fms) \<Rightarrow>
                Inr (collect n (map (\<lambda>k. ams ! k) amOrder),
                     collect n (map (\<lambda>k. fms ! k) fmOrder))))"

definition validAssignment :: "MonteCarloConfig \<Rightarrow> (nat \<Rightarrow> nat) \<Rightarrow> bool" where
  "validAssignment config assign =
     list_all (\<lambda>i. int (assign i) < NumWorkers config) [0..<length (SNRRange config)]"

definition RunPhase5MonteCarloSimulation ::
  "(64 word \<Rightarrow> rng) \<Rightarrow> SignalParams \<Rightarrow> SignalParams \<Rightarrow> MonteCarloConfig
   \<Rightarrow> (nat \<Rightarrow> nat) \<Rightarrow> nat list \<Rightarrow> nat list
   \<Rightarrow> panic + (PerformanceResult list \<times> PerformanceResult list)" where
  "RunPhase5MonteCarloSimulation newSource amParams fmParams config assign amOrder fmOrder =
     (if UseParallel config
      then runParallelMonteCarloSimulation newSource amParams fmParams config
             assign amOrder fmOrder
      else runSequentialMonteCarloSimulation newSource amParams fmParams config)"

section \<open>The run-sweep operation on the default generator (\<^verbatim>\<open>montecarlo.go\<close>)\<close>

text \<open>
  \<^verbatim>\<open>SimulationConfig\<close>. Its fields carry the prefix \<open>cfg\<close>: the names \<^verbatim>\<open>Seed\<close>,
  \<^verbatim>\<open>NumWorkers\<close>, \<^verbatim>\<open>SNRRange\<close>, \<^verbatim>\<open>UseParallel\<close> and \<^verbatim>\<open>NumTrials\<close> are fields of the records
  above.
\<close>

record SimulationConfig =
  cfgSeed :: "64 word"
  cfgNumTrials :: int
  cfgNumWorkers :: int
  cfgSNRRange :: "float64 list"
  cfgUseParallel :: bool
  cfgPrintProgress :: bool

text \<open>
  Of \<^verbatim>\<open>SimulationStats\<close> the two fields computed from the configuration are kept; the
  duration, the throughput and the memory delta are read from the clock and the runtime.
\<close>

record SimulationStats =
  TotalTrials :: int
  WorkersUsed :: int

text \<open>
  What the run reads from outside: the outcome of \<^verbatim>\<open>crypto/rand.Read\<close> on eight bytes (an
  error or the bytes), the default generator as it stands after \<^verbatim>\<open>Seed\<close>, and, for the
  parallel sweep, the scheduler's choices: the draws of the shared default generator that
  fall to trial \<open>k\<close> of job \<open>i\<close>, and the order in which the result messages arrive.
\<close>

record environment =
  cryptoRead :: "string + 8 word list"
  defaultSource :: "64 word \<Rightarrow> rng"
  interleaving :: "ModulationType \<Rightarrow> nat \<Rightarrow> nat \<Rightarrow> rng"
  arrival :: "ModulationType \<Rightarrow> nat list"

definition littleEndianUint64 :: "8 word list \<Rightarrow> 64 word" where
  "littleEndianUint64 bytes = foldr (\<lambda>b acc. or (ucast b) (push_bit 8 acc)) bytes 0"

definition generateCryptoSeed :: "environment \<Rightarrow> string + 64 word" where
  "generateCryptoSeed env =
     (case cryptoRead env of
        Inl err \<Rightarrow> Inl err
      | Inr seedBytes \<Rightarrow> Inr (littleEndianUint64 seedBytes))"

text \<open>One pass of the trial loop of \<^verbatim>\<open>simulateSNRPerformance\<close>, noise from \<^verbatim>\<open>addAWGN\<close>.\<close>

definition defaultTrial ::
  "ModulationType \<Rightarrow> SignalParams \<Rightarrow> float64 \<Rightarrow> bool \<Rightarrow> rng \<Rightarrow> panic + (float64 \<times> rng)" where
  "defaultTrial modType params targetSNR checkInput g =
     (case generateBaseband params of
        Inl e \<Rightarrow> Inl e
      | Inr originalMessage \<Rightarrow>
     (case (if modType = AM then generateAM params
            else if modType = FM then generateFM params
            else Inr emptySignal) of
        Inl e \<Rightarrow> Inl e
      | Inr modulatedSignal \<Rightarrow>
     (let (noisySignal, g') = addAWGN modulatedSignal targetSNR g
      in
     (case (if checkInput then computeInputSNR modulatedSignal noisySignal else Inr (Fin 0)) of
        Inl e \<Rightarrow> Inl e
      | Inr _ \<Rightarrow>
     (case (if modType = AM then Inr (demodulateAM noisySignal)
            else if modType = FM then demodulateFM noisySignal params
            else Inr emptySignal) of
        Inl e \<Rightarrow> Inl e
      | Inr demodulatedSignal \<Rightarrow>
     (case computeOutputSNR originalMessage demodulatedSignal of
        Inl e \<Rightarrow> Inl e
      | Inr outputSNR \<Rightarrow> Inr (outputSNR, g')))))))"

fun defaultTrials ::
  "ModulationType \<Rightarrow> SignalParams \<Rightarrow> float64 \<Rightarrow> nat \<Rightarrow> rng \<Rightarrow> panic + (float64 list \<times> rng)" where
  "defaultTrials modType params targetSNR 0 g = Inr ([], g)"
| "defaultTrials modType params targetSNR (Suc k) g =
     (case defaultTrial modType params targetSNR True g of
        Inl e \<Rightarrow> Inl e
      | Inr (outputSNR, g') \<Rightarrow>
          (case defaultTrials modType params targetSNR k g' of
             Inl e \<Rightarrow> Inl e
           | Inr (rest, g'') \<Rightarrow> Inr (outputSNR # rest, g'')))"

text \<open>The statistics written inline in both sweeps.\<close>

definition pointResult :: "ModulationType \<Rightarrow> float64 \<Rightarrow> int \<Rightarrow> float64 list \<Rightarrow> PerformanceResult" where
  "pointResult modType targetSNR numTrials measurements =
     (let mean = fdiv (fsum measurements) (ofInt numTrials);
          variance = fdiv (foldl (\<lambda>acc val. let diff = fsub val mean
                                              in fadd acc (fmul diff diff)) (Fin 0) measurements)
                          (ofInt (numTrials - 1))
      in \<lparr>InputSNR_dB = targetSNR, OutputSNR_dB = mean, StdDev = fsqrt variance,
           ModulationType = modType, NumTrials = numTrials\<rparr>)"

fun simulateSNRPerformance ::
  "ModulationType \<Rightarrow> SignalParams \<Rightarrow> float64 list \<Rightarrow> int \<Rightarrow> rng
   \<Rightarrow> panic + (PerformanceResult list \<times> rng)" where
  "simulateSNRPerformance modType params [] numTrials g = Inr ([], g)"
| "simulateSNRPerformance modType params (targetSNR # snrs) numTrials g =
     (if makeslicePanics numTrials then Inl MakesliceLenOutOfRange
      else
     (case defaultTrials modType params targetSNR (nat numTrials) g of
        Inl e \<Rightarrow> Inl e
      | Inr (measurements, g') \<Rightarrow>
     (case simulateSNRPerformance modType params snrs numTrials g' of
        Inl e \<Rightarrow> Inl e
      | Inr (results, g'') \<Rightarrow>
          Inr (pointResult modType targetSNR numTrials measurements # results, g''))))"

text \<open>
  \<^verbatim>\<open>simulateSNRPerformanceParallel\<close>: the workers share the default generator, so the
  draws a trial sees are whatever the interleaving leaves it: \<open>draws i k\<close> for trial \<open>k\<close> of
  job \<open>i\<close>.
\<close>

fun parallelTrials ::
  "ModulationType \<Rightarrow> SignalParams \<Rightarrow> float64 \<Rightarrow> (nat \<Rightarrow> rng) \<Rightarrow> nat list \<Rightarrow> panic + float64 list" where
  "parallelTrials modType params targetSNR draws [] = Inr []"
| "parallelTrials modType params targetSNR draws (k # ks) =
     (case defaultTrial modType params targetSNR False (draws k) of
        Inl e \<Rightarrow> Inl e
      | Inr (outputSNR, _) \<Rightarrow>
          (case parallelTrials modType params targetSNR draws ks of
             Inl e \<Rightarrow> Inl e
           | Inr rest \<Rightarrow> Inr (outputSNR # rest)))"

fun parallelJobs ::
  "ModulationType \<Rightarrow> SignalParams \<Rightarrow> int \<Rightarrow> (nat \<Rightarrow> nat \<Rightarrow> rng) \<Rightarrow> (nat \<times> float64) list
   \<Rightarrow> panic + (nat \<times> PerformanceResult) list" where
  "parallelJobs modType params numTrials draws [] = Inr []"
| "parallelJobs modType params numTrials draws ((snrIndex, targetSNR) # jobs) =
     (if makeslicePanics numTrials then Inl MakesliceLenOutOfRange
      else
     (case parallelTrials modType params targetSNR (draws snrIndex) [0..<nat numTrials] of
        Inl e \<Rightarrow> Inl e
      | Inr measurements \<Rightarrow>
     (case parallelJobs modType params numTrials draws jobs of
        Inl e \<Rightarrow> Inl e
      | Inr msgs \<Rightarrow>
          Inr ((snrIndex, pointResult modType targetSNR numTrials measurements) # msgs))))"

definition simulateSNRPerformanceParallel ::
  "ModulationType \<Rightarrow> SignalParams \<Rightarrow> float64 list \<Rightarrow> int \<Rightarrow> int
   \<Rightarrow> (nat \<Rightarrow> nat \<Rightarrow> rng) \<Rightarrow> nat list \<Rightarrow> panic + PerformanceResult list" where
  "simulateSNRPerformanceParallel modType params snrRange numTrials numWorkers draws order =
     (let n = length snrRange
      in if numWorkers \<le> 0 then Inr (replicate n zeroResult)
         else
           (case parallelJobs modType params numTrials draws (zip [0..<n] snrRange) of
              Inl e \<Rightarrow> Inl e
            | Inr msgs \<Rightarrow> Inr (collect n (map (\<lambda>k. msgs ! k) order))))"

text \<open>
  \<^verbatim>\<open>OptimizedMonteCarloSimulation\<close>. The result is a panic or the returned tuple, whose
  last component is the Go error (\<open>None\<close> for \<^verbatim>\<open>nil\<close>).
\<close>

definition OptimizedMonteCarloSimulation ::
  "environment \<Rightarrow> SignalParams \<Rightarrow> SignalParams \<Rightarrow> SimulationConfig
   \<Rightarrow> panic + (PerformanceResult list \<times> PerformanceResult list \<times> SimulationStats \<times> string option)" where
  "OptimizedMonteCarloSimulation env amParams fmParams config0 =
     (case (if cfgSeed config0 = 0
            then (case generateCryptoSeed env of
                    Inl err \<Rightarrow> Inl err
                  | Inr seed \<Rightarrow> Inr (config0\<lparr>cfgSeed := seed\<rparr>))
            else Inr config0) of
        Inl err \<Rightarrow> Inr ([], [], \<lparr>TotalTrials = 0, WorkersUsed = 0\<rparr>, Some err)
      | Inr config \<Rightarrow>
          (let stats = \<lparr>TotalTrials = cfgNumTrials config * int (length (cfgSNRRange config)) * 2,
                        WorkersUsed = cfgNumWorkers config\<rparr>
           in if cfgUseParallel config \<and> cfgNumWorkers config > 1
              then
                (case simulateSNRPerformanceParallel AM amParams (cfgSNRRange config)
                        (cfgNumTrials config) (cfgNumWorkers config)
                        (interleaving env AM) (arrival env AM) of
                   Inl e \<Rightarrow> Inl e
                 | Inr amResults \<Rightarrow>
                (case simulateSNRPerformanceParallel FM fmParams (cfgSNRRange config)
                        (cfgNumTrials config) (cfgNumWorkers config)
                        (interleaving env FM) (arrival env FM) of
                   Inl e \<Rightarrow> Inl e
                 | Inr fmResults \<Rightarrow> Inr (amResults, fmResults, stats, None)))
              else
                (case simulateSNRPerformance AM amParams (cfgSNRRange config)
                        (cfgNumTrials config) (defaultSource env (cfgSeed config)) of
                   Inl e \<Rightarrow> Inl e
                 | Inr (amResults, g) \<Rightarrow>
                (case simulateSNRPerformance FM fmParams (cfgSNRRange config)
                        (cfgNumTrials config) g of
                   Inl e \<Rightarrow> Inl e
                 | Inr (fmResults, _) \<Rightarrow> Inr (amResults, fmResults, stats, None)))))"

section \<open>Inputs and auxiliary notions used in the statements\<close>

text \<open>A negative rate with a negative duration.\<close>

definition bothNegativeParams :: SignalParams where
  "bothNegativeParams =
     \<lparr>SamplingRate = Fin (- 4), Duration = Fin (- 1 / 2), MessageFreq = Fin 1,
      CarrierFreq = Fin 1, MessageAmp = Fin 1, CarrierAmp = Fin 1, ModulationIdx = Fin 1\<rparr>"

text \<open>
  A generator's result has \<open>n\<close> samples, the \<open>i\<close>-th timestamp being the \<^verbatim>\<open>float64\<close> product
  of \<open>i\<close> and the \<^verbatim>\<open>float64\<close> quotient \<open>1 / fs\<close>.
\<close>

definition hasSamples :: "int \<Rightarrow> real \<Rightarrow> panic + Signal \<Rightarrow> bool" where
  "hasSamples n fs r =
     (case r of
        Inl e \<Rightarrow> False
      | Inr sig \<Rightarrow>
          int (length (Values sig)) = n
          \<and> Time sig = map (\<lambda>i. rounded (fmul (ofNat i) (rounded (fdiv (Fin 1) (Fin fs)))))
                          [0..<nat n])"

text \<open>
  A timestamp of index \<open>i\<close> within the fraction \<open>3 / 2^53\<close> of \<open>i / fs\<close>, and a time vector
  of such timestamps.
\<close>

definition nearTimestamp :: "real \<Rightarrow> nat \<Rightarrow> float64 \<Rightarrow> bool" where
  "nearTimestamp fs i t =
     (case t of
        Fin r \<Rightarrow> \<bar>r - real i / fs\<bar> \<le> \<bar>real i / fs\<bar> * 3 / 2 ^ 53
      | PInf \<Rightarrow> False
      | NInf \<Rightarrow> False
      | NaN \<Rightarrow> False)"

definition timestampsNear :: "real \<Rightarrow> float64 list \<Rightarrow> bool" where
  "timestampsNear fs ts = list_all (\<lambda>(i, t). nearTimestamp fs i t) (zip [0..<length ts] ts)"

definition timesOf :: "panic + Signal \<Rightarrow> float64 list" where
  "timesOf r = (case r of Inl e \<Rightarrow> [] | Inr sig \<Rightarrow> Time sig)"

text \<open>
  Rate 10 Hz over the \<^verbatim>\<open>float64\<close> nearest to 0.7 s, which is \<open>3152519739159347 / 2^52\<close> and
  lies below 0.7.
\<close>

definition tenHzParams :: SignalParams where
  "tenHzParams =
     \<lparr>SamplingRate = Fin 10, Duration = Fin (3152519739159347 / 2 ^ 52), MessageFreq = Fin 1,
      CarrierFreq = Fin 1, MessageAmp = Fin 1, CarrierAmp = Fin 1, ModulationIdx = Fin 1\<rparr>"

text \<open>\<^verbatim>\<open>invalidParams\<close> of the ``Error Handling and Robustness'' test.\<close>

definition invalidParams :: SignalParams where
  "invalidParams =
     \<lparr>SamplingRate = Fin (- 1000), Duration = Fin (1 / 10), MessageFreq = Fin 100,
      CarrierFreq = Fin 1000, MessageAmp = Fin 1, CarrierAmp = Fin 1, ModulationIdx = Fin 0\<rparr>"

text \<open>A value that is a nonnegative number or \<open>+\<infinity>\<close>.\<close>

definition nonnegOrInf :: "float64 \<Rightarrow> bool" where
  "nonnegOrInf x = (case x of Fin a \<Rightarrow> 0 \<le> a | PInf \<Rightarrow> True | NInf \<Rightarrow> False | NaN \<Rightarrow> False)"

definition twoSamples :: Signal where
  "twoSamples = \<lparr>Time = [Fin 0, Fin 1], Values = [Fin (- 1), Fin 3]\<rparr>"

text \<open>The mean square of a sample list and the standard deviation derived from it.\<close>

definition meanSquare :: "float64 list \<Rightarrow> float64" where
  "meanSquare vals = fdiv (fsum (map (\<lambda>x. fmul x x) vals)) (ofNat (length vals))"

definition sigmaFor :: "float64 list \<Rightarrow> float64 \<Rightarrow> float64" where
  "sigmaFor vals T = fsqrt (fdiv (meanSquare vals) (fpow10 (fdiv T (Fin 10))))"

text \<open>
  The FM trial as claim C2 words it: the pass of \<^verbatim>\<open>runTrial\<close> for FM with the alignment
  step of the test pipelines (\<^verbatim>\<open>runMonteCarloTrialFM\<close>) before the score.
\<close>

definition runTrialAligned :: "SignalParams \<Rightarrow> float64 \<Rightarrow> rng \<Rightarrow> panic + (float64 \<times> rng)" where
  "runTrialAligned params targetSNR g =
     (case generateBaseband params of
        Inl e \<Rightarrow> Inl e
      | Inr originalMessage \<Rightarrow>
     (case generateFM params of
        Inl e \<Rightarrow> Inl e
      | Inr fmSignal \<Rightarrow>
     (let (noisySignal, g') = addAWGNWithRNG fmSignal targetSNR g
      in
     (case demodulateFM noisySignal params of
        Inl e \<Rightarrow> Inl e
      | Inr demodulated \<Rightarrow>
     (let aligned = alignSignals (Values originalMessage) (Values demodulated);
          alignedSignal = \<lparr>Time = Time originalMessage, Values = aligned\<rparr>
      in
     (case calculateSNR originalMessage alignedSignal of
        Inl e \<Rightarrow> Inl e
      | Inr outputSNR \<Rightarrow> Inr (outputSNR, g')))))))"

text \<open>
  A sweep of two points for two workers, and what it is to return when the generator
  for the second point is \<open>nextRand g\<close>, \<open>g\<close> being the generator as the first point has left
  it: the AM run and then the FM run of the first point from \<open>g0\<close>, the AM run and then
  the FM run of the second point from \<open>nextRand g\<close>.
\<close>

definition twoPointConfig :: "64 word \<Rightarrow> int \<Rightarrow> float64 \<Rightarrow> float64 \<Rightarrow> MonteCarloConfig" where
  "twoPointConfig seed numIterations s0 s1 =
     \<lparr>NumIterations = numIterations, SNRRange = [s0, s1], Seed = seed, UseParallel = True,
      NumWorkers = 2, ProgressReport = False, SaveDetailed = False\<rparr>"

definition twoPointSweep ::
  "SignalParams \<Rightarrow> SignalParams \<Rightarrow> int \<Rightarrow> float64 \<Rightarrow> float64 \<Rightarrow> rng \<Rightarrow> (rng \<Rightarrow> rng)
   \<Rightarrow> panic + (PerformanceResult list \<times> PerformanceResult list)" where
  "twoPointSweep amParams fmParams numIterations s0 s1 g0 nextRand =
     (case runSingleSNRSimulation AM amParams s0 numIterations g0 of
        Inl e \<Rightarrow> Inl e
      | Inr (am0, g1) \<Rightarrow>
     (case runSingleSNRSimulation FM fmParams s0 numIterations g1 of
        Inl e \<Rightarrow> Inl e
      | Inr (fm0, g2) \<Rightarrow>
     (case runSingleSNRSimulation AM amParams s1 numIterations (nextRand g2) of
        Inl e \<Rightarrow> Inl e
      | Inr (am1, g3) \<Rightarrow>
     (case runSingleSNRSimulation FM fmParams s1 numIterations g3 of
        Inl e \<Rightarrow> Inl e
      | Inr (fm1, g4) \<Rightarrow>
          Inr ([am0\<lparr>InputSNR_dB := s0\<rparr>, am1\<lparr>InputSNR_dB := s1\<rparr>],
               [fm0\<lparr>InputSNR_dB := s0\<rparr>, fm1\<lparr>InputSNR_dB := s1\<rparr>])))))"

text \<open>
  Eleven samples of an FM signal: rate 4 Hz over 2.75 s, message at 1 Hz, carrier at
  0 Hz, modulation index \<open>4\<pi>\<close>, so that the phase moves in steps of \<open>\<pi>/2\<close>.
\<close>

definition quarterParams :: SignalParams where
  "quarterParams =
     \<lparr>SamplingRate = Fin 4, Duration = Fin (11 / 4), MessageFreq = Fin 1,
      CarrierFreq = Fin 0, MessageAmp = Fin 1, CarrierAmp = Fin 1,
      ModulationIdx = Fin (4 * pi)\<rparr>"

definition quarterTime :: "float64 list" where
  "quarterTime = [Fin 0, Fin (1 / 4), Fin (1 / 2), Fin (3 / 4), Fin 1,
                  Fin (5 / 4), Fin (3 / 2), Fin (7 / 4), Fin 2, Fin (9 / 4), Fin (5 / 2)]"

definition quarterMessage :: Signal where
  "quarterMessage =
     \<lparr>Time = quarterTime,
      Values = [Fin 0, Fin 1, Fin 0, Fin (- 1), Fin 0, Fin 1, Fin 0, Fin (- 1),
                Fin 0, Fin 1, Fin 0]\<rparr>"

definition quarterFM :: Signal where
  "quarterFM =
     \<lparr>Time = quarterTime,
      Values = [Fin 0, Fin 1, Fin 0, Fin 1, Fin 0, Fin 1, Fin 0, Fin 1, Fin 0, Fin 1, Fin 0]\<rparr>"

definition quarterRaw :: "real \<Rightarrow> float64 list" where
  "quarterRaw c = [Fin 0, Fin 0, Fin c, Fin (- c), Fin c, Fin (- c), Fin c, Fin (- c),
                   Fin c, Fin (- c), Fin c]"

definition quarterLevel :: real where
  "quarterLevel = 1 / (2 * (pi * pi)) / 11"

definition quarterDemodulated :: Signal where
  "quarterDemodulated = \<lparr>Time = quarterTime, Values = replicate 11 (Fin quarterLevel)\<rparr>"

definition unalignedScore :: real where
  "unalignedScore =
     10 * log 10 (5 / (11 * (quarterLevel * quarterLevel) - 2 * quarterLevel + 5))"

definition alignedScore :: real where
  "alignedScore =
     10 * log 10 (5 / (10 * (quarterLevel * quarterLevel) - 2 * quarterLevel + 5))"

text \<open>The parameters of the ``Zero Duration'' test and a seeded sequential configuration.\<close>

definition zeroDurationParams :: SignalParams where
  "zeroDurationParams =
     \<lparr>SamplingRate = Fin 1000, Duration = Fin 0, MessageFreq = Fin 10,
      CarrierFreq = Fin 100, MessageAmp = Fin 0, CarrierAmp = Fin 0, ModulationIdx = Fin 0\<rparr>"

definition seededConfig :: SimulationConfig where
  "seededConfig = \<lparr>cfgSeed = 42, cfgNumTrials = 1, cfgNumWorkers = 1, cfgSNRRange = [Fin 10],
                    cfgUseParallel = False, cfgPrintProgress = False\<rparr>"

section \<open>Properties of the rounding\<close>

lemma roundHalfEven_of_int: "roundHalfEven (of_int m) = m"
  by (simp add: roundHalfEven_def)

lemma ulpExponent_eq:
  assumes "2 powr real_of_int L \<le> \<bar>x\<bar>" and "\<bar>x\<bar> < 2 powr real_of_int (L + 1)"
    and "- 1022 \<le> L"
  shows "ulpExponent x = L - 52"
proof -
  have "0 < \<bar>x\<bar>" using assms(1) by (smt (verit) powr_gt_zero)
  then have "\<lfloor>log 2 \<bar>x\<bar>\<rfloor> = L"
    using assms(1,2) by (simp add: floor_log_eq_powr_iff)
  with assms(3) show ?thesis by (simp add: ulpExponent_def)
qed

text \<open>The rounding of a number in the binade \<open>2^L \<le> \<bar>x\<bar> < 2^(L+1)\<close> of the normal range.\<close>

lemma rnd64_compute:
  assumes "2 powr real_of_int L \<le> \<bar>x\<bar>" and "\<bar>x\<bar> < 2 powr real_of_int (L + 1)"
    and "- 1022 \<le> L" and "L \<le> 1022"
    and "roundHalfEven (x / 2 powr real_of_int (L - 52)) = n" and "\<bar>n\<bar> \<le> 2 ^ 53"
  shows "rnd64 x = Fin (real_of_int n * 2 powr real_of_int (L - 52))"
proof -
  have "x \<noteq> 0" using assms(1) by (smt (verit) powr_gt_zero)
  have "real_of_int \<bar>n\<bar> \<le> 2 ^ 53"
    using assms(6) by (metis of_int_le_numeral_power_cancel_iff)
  then have "real_of_int \<bar>n\<bar> * 2 powr real_of_int (L - 52)
               \<le> 2 ^ 53 * 2 powr real_of_int (L - 52)"
    by (intro mult_right_mono) simp_all
  also have "\<dots> = 2 powr real_of_int (L + 1)"
    by (simp add: powr_add powr_diff)
  also have "\<dots> \<le> 2 powr real_of_int 1023"
    using assms(4) by (intro powr_mono) simp_all
  also have "\<dots> < overflowThreshold"
    by (simp add: overflowThreshold_def)
  finally have "\<bar>real_of_int n * 2 powr real_of_int (L - 52)\<bar> < overflowThreshold"
    by (simp add: abs_mult)
  with \<open>x \<noteq> 0\<close> show ?thesis
    using assms(5) ulpExponent_eq [OF assms(1-3)]
    by (simp add: rnd64_def Let_def)
qed

text \<open>A number \<open>m * 2^j\<close> with \<open>\<bar>m\<bar> < 2^53\<close> is a \<^verbatim>\<open>float64\<close>: rounding leaves it as it is.\<close>

lemma rnd64_dyadic:
  assumes "\<bar>m\<bar> < 2 ^ 53" and "- 1074 \<le> j" and "j \<le> 970"
  shows "rnd64 (real_of_int m * 2 powr real_of_int j)
           = Fin (real_of_int m * 2 powr real_of_int j)"
proof (cases "m = 0")
  case True
  then show ?thesis by (simp add: rnd64_def)
next
  case False
  define x where "x = real_of_int m * 2 powr real_of_int j"
  define e where "e = ulpExponent x"
  have x0: "x \<noteq> 0" using False by (simp add: x_def)
  have ax: "\<bar>x\<bar> = real_of_int \<bar>m\<bar> * 2 powr real_of_int j"
    by (simp add: x_def abs_mult)
  have m2: "real_of_int \<bar>m\<bar> < 2 ^ 53"
    using assms(1) by (metis of_int_less_numeral_power_cancel_iff)
  have "\<bar>x\<bar> < 2 ^ 53 * 2 powr real_of_int j"
    unfolding ax using m2 by simp
  also have "\<dots> = 2 powr real_of_int (53 + j)"
    by (simp add: powr_add)
  finally have up: "\<bar>x\<bar> < 2 powr real_of_int (53 + j)" .
  have "log 2 \<bar>x\<bar> < real_of_int (53 + j)"
    using up x0 by (simp add: log_less_iff del: of_int_add)
  then have "\<lfloor>log 2 \<bar>x\<bar>\<rfloor> < 53 + j"
    by (simp add: floor_less_iff del: of_int_add)
  then have e: "e \<le> j"
    using assms(2) by (simp add: ulpExponent_def e_def)
  define k where "k = nat (j - e)"
  have jk: "real_of_int j = real_of_int e + real k"
    using e by (simp add: k_def)
  have p: "2 powr real_of_int j = 2 powr real_of_int e * 2 ^ k"
    by (subst jk) (simp add: powr_add powr_realpow)
  have q: "x / 2 powr real_of_int e = real_of_int (m * 2 ^ k)"
    by (simp add: x_def p)
  have y: "real_of_int (roundHalfEven (x / 2 powr real_of_int e)) * 2 powr real_of_int e = x"
    unfolding q roundHalfEven_of_int by (simp add: x_def p)
  have "2 powr real_of_int (53 + j) \<le> 2 powr real_of_int 1023"
    using assms(3) by (intro powr_mono) simp_all
  also have "\<dots> < overflowThreshold"
    by (simp add: overflowThreshold_def)
  finally have "\<bar>x\<bar> < overflowThreshold"
    using up by linarith
  then have "rnd64 x = Fin x"
    using x0 y by (simp add: rnd64_def Let_def flip: e_def)
  then show ?thesis by (simp add: x_def)
qed

lemma rnd64_int: "\<bar>m\<bar> < 2 ^ 53 \<Longrightarrow> rnd64 (of_int m) = Fin (of_int m)"
  using rnd64_dyadic [of m 0] by simp

lemma rnd64_quarters: "\<bar>m\<bar> < 2 ^ 53 \<Longrightarrow> rnd64 (of_int m / 4) = Fin (of_int m / 4)"
  using rnd64_dyadic [of m "- 2"] by (simp add: powr_minus_divide)

lemma rnd64_small:
  "rnd64 0 = Fin 0" "rnd64 1 = Fin 1" "rnd64 2 = Fin 2" "rnd64 4 = Fin 4" "rnd64 7 = Fin 7"
  "rnd64 10 = Fin 10" "rnd64 11 = Fin 11" "rnd64 (- 100) = Fin (- 100)"
  "rnd64 (1 / 4) = Fin (1 / 4)" "rnd64 (- (1 / 4)) = Fin (- (1 / 4))"
  "rnd64 (1 / 2) = Fin (1 / 2)" "rnd64 (3 / 4) = Fin (3 / 4)" "rnd64 (5 / 4) = Fin (5 / 4)"
  "rnd64 (3 / 2) = Fin (3 / 2)" "rnd64 (7 / 4) = Fin (7 / 4)" "rnd64 (9 / 4) = Fin (9 / 4)"
  "rnd64 (5 / 2) = Fin (5 / 2)"
  using rnd64_int [of 0] rnd64_int [of 1] rnd64_int [of 2] rnd64_int [of 4] rnd64_int [of 7]
    rnd64_int [of 10] rnd64_int [of 11] rnd64_int [of "- 100"]
    rnd64_quarters [of 1] rnd64_quarters [of "- 1"] rnd64_quarters [of 2] rnd64_quarters [of 3]
    rnd64_quarters [of 5] rnd64_quarters [of 6] rnd64_quarters [of 7] rnd64_quarters [of 9]
    rnd64_quarters [of 10]
  by simp_all

text \<open>
  Roundings that are not exact: \<open>10 * 0.7\<close> goes up to 7, \<open>1 / 10\<close> goes up, three times
  that quotient is a tie and goes to the even neighbour above, \<open>3 / 10\<close> goes down.
\<close>

lemma rnd64_seven: "rnd64 (10 * (3152519739159347 / 2 ^ 52)) = Fin 7"
  using rnd64_compute [of 2 "10 * (3152519739159347 / 2 ^ 52)" 7881299347898368]
  by (simp add: roundHalfEven_def powr_minus_divide)

lemma rnd64_tenth: "rnd64 (1 / 10) = Fin (7205759403792794 / 2 ^ 56)"
  using rnd64_compute [of "- 4" "1 / 10" 7205759403792794]
  by (simp add: roundHalfEven_def powr_minus_divide)

lemma rnd64_three_tenths:
  "rnd64 (3 * (7205759403792794 / 2 ^ 56)) = Fin (5404319552844596 / 2 ^ 54)"
  "rnd64 (3 / 10) = Fin (5404319552844595 / 2 ^ 54)"
  using rnd64_compute [of "- 2" "3 * (7205759403792794 / 2 ^ 56)" 5404319552844596]
    rnd64_compute [of "- 2" "3 / 10" 5404319552844595]
  by (simp_all add: roundHalfEven_def powr_minus_divide)

text \<open>In the normal range rounding moves a number by at most the fraction \<open>2^(-53)\<close> of it.\<close>

lemma roundHalfEven_error: "\<bar>real_of_int (roundHalfEven q) - q\<bar> \<le> 1 / 2"
  unfolding roundHalfEven_def Let_def by (auto simp: abs_if) linarith+

lemma rnd64_relative_error:
  assumes "2 powr (- 1022) \<le> \<bar>x\<bar>" and "\<bar>x\<bar> < 2 powr 1023"
  shows "\<exists>y. rnd64 x = Fin y \<and> \<bar>y - x\<bar> \<le> \<bar>x\<bar> / 2 ^ 53"
proof -
  have x0: "0 < \<bar>x\<bar>" using assms(1) by (smt (verit) powr_gt_zero)
  define L where "L = \<lfloor>log 2 \<bar>x\<bar>\<rfloor>"
  have lo: "2 powr real_of_int L \<le> \<bar>x\<bar>" and hi: "\<bar>x\<bar> < 2 powr real_of_int (L + 1)"
    using x0 floor_log_eq_powr_iff [of "\<bar>x\<bar>" 2 L] by (simp_all add: L_def)
  have "- 1022 \<le> log 2 \<bar>x\<bar>"
    using assms(1) x0 by (simp add: le_log_iff)
  then have L1: "- 1022 \<le> L"
    unfolding L_def by (simp add: le_floor_iff)
  have "log 2 \<bar>x\<bar> < 1023"
    using assms(2) x0 by (simp add: log_less_iff)
  then have L2: "L \<le> 1022"
    unfolding L_def by (simp add: floor_less_iff)
  define e where "e = L - 52"
  have e: "ulpExponent x = e"
    unfolding e_def by (rule ulpExponent_eq [OF lo hi L1])
  define u where "u = 2 powr real_of_int e"
  have u0: "0 < u" by (simp add: u_def)
  define y where "y = real_of_int (roundHalfEven (x / u)) * u"
  have "y - x = (real_of_int (roundHalfEven (x / u)) - x / u) * u"
    using u0 by (simp add: y_def left_diff_distrib)
  then have "\<bar>y - x\<bar> = \<bar>real_of_int (roundHalfEven (x / u)) - x / u\<bar> * u"
    using u0 by (simp only: abs_mult abs_of_pos)
  also have "\<dots> \<le> 1 / 2 * u"
    using u0 roundHalfEven_error [of "x / u"] by (intro mult_right_mono) simp_all
  finally have err: "\<bar>y - x\<bar> \<le> u / 2" by simp
  have uL: "u = 2 powr real_of_int L / 2 ^ 52"
    by (simp add: u_def e_def powr_diff)
  have rel: "u / 2 \<le> \<bar>x\<bar> / 2 ^ 53"
    using lo by (simp add: uL field_simps)
  have "2 powr real_of_int (L + 1) \<le> 2 powr real_of_int 1023"
    using L2 by (intro powr_mono) simp_all
  then have "\<bar>x\<bar> < 2 ^ 1023"
    using hi by simp
  moreover have "\<bar>y\<bar> \<le> \<bar>x\<bar> + \<bar>x\<bar> / 2 ^ 53"
    using err rel by linarith
  ultimately have "\<bar>y\<bar> < overflowThreshold"
    by (simp add: overflowThreshold_def)
  then have "rnd64 x = Fin y"
    using x0 by (auto simp: rnd64_def Let_def e u_def [symmetric] y_def [symmetric])
  with err rel show ?thesis by fastforce
qed


section \<open>Properties of the waveform generators\<close>

lemma goInt_Fin:
  "goInt (Fin r) = (let n = (if 0 \<le> r then \<lfloor>r\<rfloor> else \<lceil>r\<rceil>)
                    in if - (2 ^ 63) \<le> n \<and> n < 2 ^ 63 then Some n else None)"
  by (simp add: goInt_def)

lemma length_generateFM_loop:
  "length (generateFM_loop params dt prev integral ts) = length ts"
  by (induction ts arbitrary: prev integral) (simp_all add: Let_def)

text \<open>
  Where the rounded product \<open>p\<close> of rate and duration is not negative and \<open>\<lfloor>p\<rfloor>\<close> is a
  length that \<^verbatim>\<open>make\<close> accepts, the time vector has \<open>\<lfloor>p\<rfloor>\<close> entries.
\<close>

lemma generateTimeVector_rounded:
  assumes "SamplingRate params = Fin fs" and "Duration params = Fin d"
    and "rnd64 (fs * d) = Fin p" and "0 \<le> p" and "\<lfloor>p\<rfloor> \<le> maxSliceLen"
  shows "generateTimeVector params
           = Inr (map (\<lambda>i. rounded (fmul (ofNat i) (rounded (fdiv (Fin 1) (Fin fs)))))
                      [0..<nat \<lfloor>p\<rfloor>])"
proof -
  have nn: "0 \<le> \<lfloor>p\<rfloor>"
    using assms(4) by simp
  have "\<lfloor>p\<rfloor> < 2 ^ 63"
    using assms(5) by (simp add: maxSliceLen_def)
  with nn have "goInt (Fin p) = Some \<lfloor>p\<rfloor>"
    using assms(4) by (simp add: goInt_Fin)
  then show ?thesis
    using assms(1,2,3,5) nn
    by (simp add: generateTimeVector_def rounded_def makeslicePanics_def Let_def)
qed

text \<open>
  A timestamp comes out of two roundings, of the quotient \<open>1 / fs\<close> and of its product
  with \<open>i\<close>: for a rate between \<open>2^(-500)\<close> and \<open>2^500\<close> it lies within the fraction
  \<open>3 / 2^53\<close> of \<open>i / fs\<close>.
\<close>

lemma timestamp_relative_error:
  assumes "generateTimeVector params = Inr ts" and "SamplingRate params = Fin fs"
    and "2 powr (- 500) \<le> \<bar>fs\<bar>" and "\<bar>fs\<bar> \<le> 2 powr 500" and "i < length ts"
  shows "\<exists>t. ts ! i = Fin t \<and> \<bar>t - real i / fs\<bar> \<le> \<bar>real i / fs\<bar> * 3 / 2 ^ 53"
proof -
  from assms(1) obtain n
    where n: "\<not> makeslicePanics n"
      and ts: "ts = map (\<lambda>i. rounded (fmul (ofNat i) (rounded (fdiv (Fin 1) (Fin fs)))))
                        [0..<nat n]"
    by (auto simp: generateTimeVector_def assms(2) Let_def split: option.splits if_splits)
  from n ts assms(5) have i45: "real i \<le> 2 ^ 45"
    by (simp add: makeslicePanics_def maxSliceLen_def) linarith
  have fs0: "fs \<noteq> 0"
    using assms(3) by (smt (verit) powr_gt_zero)
  define x where "x = 1 / fs"
  have ax: "\<bar>x\<bar> = 1 / \<bar>fs\<bar>" by (simp add: x_def)
  have xlo: "2 powr (- 500) \<le> \<bar>x\<bar>"
    using assms(4) fs0 unfolding ax by (simp add: powr_minus field_simps)
  have xhi: "\<bar>x\<bar> \<le> 2 powr 500"
    using assms(3) fs0 unfolding ax by (simp add: powr_minus field_simps)
  have "2 powr (- 1022) \<le> (2::real) powr (- 500)" "(2::real) powr 500 < 2 powr 1023"
    by simp_all
  with xlo xhi obtain y where y: "rnd64 x = Fin y" and ey: "\<bar>y - x\<bar> \<le> \<bar>x\<bar> / 2 ^ 53"
    using rnd64_relative_error [of x] by fastforce
  have dt: "rounded (fdiv (Fin 1) (Fin fs)) = Fin y"
    using fs0 y by (simp add: rounded_def x_def)
  have "ts ! i = rounded (fmul (ofNat i) (rounded (fdiv (Fin 1) (Fin fs))))"
    using assms(5) unfolding ts by simp
  also have "\<dots> = rounded (fmul (ofNat i) (Fin y))"
    by (simp only: dt)
  also have "\<dots> = rnd64 (real i * y)"
    by (simp add: ofNat_def rounded_def)
  finally have ti: "ts ! i = rnd64 (real i * y)" .
  show ?thesis
  proof (cases "i = 0")
    case True
    with ti have "ts ! i = Fin 0" by (simp add: rnd64_def)
    with True show ?thesis by simp
  next
    case False
    then have i1: "1 \<le> real i" by simp
    define z where "z = real i * y"
    have tri: "\<bar>x\<bar> - \<bar>y - x\<bar> \<le> \<bar>y\<bar>" "\<bar>y\<bar> \<le> \<bar>x\<bar> + \<bar>y - x\<bar>"
      by linarith+
    define w where "w = \<bar>x\<bar> / 2 ^ 53"
    have w: "\<bar>x\<bar> * (1 - 1 / 2 ^ 53) = \<bar>x\<bar> - w" "\<bar>x\<bar> * (1 + 1 / 2 ^ 53) = \<bar>x\<bar> + w"
      by (simp_all add: algebra_simps w_def)
    have "\<bar>y - x\<bar> \<le> w"
      using ey by (simp only: w_def)
    with tri have ylo: "\<bar>x\<bar> * (1 - 1 / 2 ^ 53) \<le> \<bar>y\<bar>"
      and yhi: "\<bar>y\<bar> \<le> \<bar>x\<bar> * (1 + 1 / 2 ^ 53)"
      unfolding w by linarith+
    have az: "\<bar>z\<bar> = real i * \<bar>y\<bar>" by (simp add: z_def abs_mult)
    have "2 powr (- 1022) \<le> (2::real) powr (- 500) * (1 - 1 / 2 ^ 53)"
      by (simp add: powr_minus field_simps)
    also have "\<dots> \<le> \<bar>x\<bar> * (1 - 1 / 2 ^ 53)"
      using xlo by (intro mult_right_mono) simp_all
    also have "\<dots> \<le> \<bar>y\<bar>" by (rule ylo)
    also have "\<dots> \<le> \<bar>z\<bar>"
      unfolding az using i1 by (simp add: mult_le_cancel_right1)
    finally have zlo: "2 powr (- 1022) \<le> \<bar>z\<bar>" .
    have "\<bar>z\<bar> \<le> 2 ^ 45 * (2 powr 500 * (1 + 1 / 2 ^ 53))"
      unfolding az using i45 yhi xhi
      by (intro mult_mono order_trans [OF yhi] mult_right_mono) simp_all
    also have "\<dots> < 2 powr 1023"
      by simp
    finally have zhi: "\<bar>z\<bar> < 2 powr 1023" .
    from rnd64_relative_error [OF zlo zhi] obtain t
      where t: "rnd64 z = Fin t" and et: "\<bar>t - z\<bar> \<le> \<bar>z\<bar> / 2 ^ 53"
      by blast
    have "\<bar>z - real i * x\<bar> = real i * \<bar>y - x\<bar>"
      by (simp add: z_def abs_mult right_diff_distrib [symmetric] del: right_diff_distrib)
    also have "\<dots> \<le> real i * (\<bar>x\<bar> / 2 ^ 53)"
      using ey by (intro mult_left_mono) simp_all
    finally have e1: "\<bar>z - real i * x\<bar> \<le> real i * \<bar>x\<bar> / 2 ^ 53" by simp
    have "\<bar>z\<bar> \<le> real i * (\<bar>x\<bar> * (1 + 1 / 2 ^ 53))"
      unfolding az using yhi by (intro mult_left_mono) simp_all
    then have e2: "\<bar>z\<bar> / 2 ^ 53 \<le> real i * \<bar>x\<bar> * 2 / 2 ^ 53"
      using i1 by (simp add: field_simps)
    define v where "v = real i * \<bar>x\<bar> / 2 ^ 53"
    have "\<bar>t - z\<bar> \<le> 2 * v" "\<bar>z - real i * x\<bar> \<le> v"
      using et e1 e2 by (simp_all add: v_def)
    then have "\<bar>t - real i * x\<bar> \<le> 3 * v"
      by linarith
    then have "\<bar>t - real i * x\<bar> \<le> real i * \<bar>x\<bar> * 3 / 2 ^ 53"
      by (simp add: v_def)
    then show ?thesis
      using t by (simp add: ti z_def x_def abs_mult)
  qed
qed

lemma timestamps_near:
  assumes "generateTimeVector params = Inr ts" and "SamplingRate params = Fin fs"
    and "2 powr (- 500) \<le> \<bar>fs\<bar>" and "\<bar>fs\<bar> \<le> 2 powr 500"
  shows "timestampsNear fs ts"
  unfolding timestampsNear_def list_all_length
proof (intro allI impI)
  fix i assume "i < length (zip [0..<length ts] ts)"
  then have i: "i < length ts" by simp
  from timestamp_relative_error [OF assms i] obtain t
    where "ts ! i = Fin t" "\<bar>t - real i / fs\<bar> \<le> \<bar>real i / fs\<bar> * 3 / 2 ^ 53"
    by blast
  with i show "case zip [0..<length ts] ts ! i of (i, t) \<Rightarrow> nearTimestamp fs i t"
    by (simp add: nearTimestamp_def)
qed

text \<open>
  Claim C5 (as amended). Let the rate \<open>fs\<close> and the duration \<open>d\<close> be finite and let \<open>p\<close> be
  their \<^verbatim>\<open>float64\<close> product, \<open>0 \<le> p\<close> with \<open>\<lfloor>p\<rfloor>\<close> at most the longest slice. Each of the
  four generators returns a signal of exactly \<open>\<lfloor>p\<rfloor>\<close> samples whose \<open>i\<close>-th timestamp is
  the \<^verbatim>\<open>float64\<close> product of \<open>i\<close> and the \<^verbatim>\<open>float64\<close> quotient \<open>1 / fs\<close>, which for a rate
  between \<open>2^(-500)\<close> and \<open>2^500\<close> lies within the fraction \<open>3 / 2^53\<close> of \<open>i / fs\<close>; a zero
  duration gives the empty signal and no error.
\<close>

theorem generators_sample_count:
  assumes "SamplingRate params = Fin fs" and "Duration params = Fin d"
    and "rnd64 (fs * d) = Fin p" and "0 \<le> p" and "\<lfloor>p\<rfloor> \<le> maxSliceLen"
  shows "hasSamples \<lfloor>p\<rfloor> fs (generateBaseband params)
       \<and> hasSamples \<lfloor>p\<rfloor> fs (generateCarrier params)
       \<and> hasSamples \<lfloor>p\<rfloor> fs (generateAM params)
       \<and> hasSamples \<lfloor>p\<rfloor> fs (generateFM params)
       \<and> (2 powr (- 500) \<le> \<bar>fs\<bar> \<and> \<bar>fs\<bar> \<le> 2 powr 500
            \<longrightarrow> timestampsNear fs (timesOf (generateBaseband params))
              \<and> timestampsNear fs (timesOf (generateCarrier params))
              \<and> timestampsNear fs (timesOf (generateAM params))
              \<and> timestampsNear fs (timesOf (generateFM params)))
       \<and> (d = 0 \<longrightarrow> generateBaseband params = Inr emptySignal
                    \<and> generateCarrier params = Inr emptySignal
                    \<and> generateAM params = Inr emptySignal
                    \<and> generateFM params = Inr emptySignal)"
proof -
  let ?ts = "map (\<lambda>i. rounded (fmul (ofNat i) (rounded (fdiv (Fin 1) (Fin fs)))))
                 [0..<nat \<lfloor>p\<rfloor>]"
  have tv: "generateTimeVector params = Inr ?ts"
    by (rule generateTimeVector_rounded [OF assms])
  have nn: "0 \<le> \<lfloor>p\<rfloor>"
    using assms(4) by simp
  have zero: "p = 0" if "d = 0"
    using that assms(3) by (simp add: rnd64_def)
  have times: "timesOf (generateBaseband params) = ?ts" "timesOf (generateCarrier params) = ?ts"
    "timesOf (generateAM params) = ?ts" "timesOf (generateFM params) = ?ts"
    by (simp_all add: timesOf_def tv generateBaseband_def generateCarrier_def generateAM_def
        generateFM_def Let_def)
  have near: "timestampsNear fs ?ts" if "2 powr (- 500) \<le> \<bar>fs\<bar>" and "\<bar>fs\<bar> \<le> 2 powr 500"
    using timestamps_near [OF tv assms(1) that] .
  have count: "hasSamples \<lfloor>p\<rfloor> fs (generateBaseband params)"
    "hasSamples \<lfloor>p\<rfloor> fs (generateCarrier params)"
    "hasSamples \<lfloor>p\<rfloor> fs (generateAM params)"
    "hasSamples \<lfloor>p\<rfloor> fs (generateFM params)"
    using nn
    by (simp_all add: hasSamples_def tv generateBaseband_def generateCarrier_def
        generateAM_def generateFM_def Let_def length_generateFM_loop)
  have empty: "generateBaseband params = Inr emptySignal"
    "generateCarrier params = Inr emptySignal"
    "generateAM params = Inr emptySignal"
    "generateFM params = Inr emptySignal" if "d = 0"
    using zero [OF that]
    by (simp_all add: tv generateBaseband_def generateCarrier_def generateAM_def
        generateFM_def Let_def emptySignal_def)
  show ?thesis
    using count near empty unfolding times by blast
qed

theorem generators_sample_count_witness:
  "hasSamples 7 10 (generateBaseband tenHzParams)
   \<and> hasSamples 7 10 (generateCarrier tenHzParams)
   \<and> hasSamples 7 10 (generateAM tenHzParams)
   \<and> hasSamples 7 10 (generateFM tenHzParams)
   \<and> timestampsNear 10 (timesOf (generateBaseband tenHzParams))
   \<and> timestampsNear 10 (timesOf (generateFM tenHzParams))
   \<and> generateBaseband (tenHzParams\<lparr>Duration := Fin 0\<rparr>) = Inr emptySignal
   \<and> generateFM (tenHzParams\<lparr>Duration := Fin 0\<rparr>) = Inr emptySignal"
proof -
  have a: "SamplingRate tenHzParams = Fin 10"
    "Duration tenHzParams = Fin (3152519739159347 / 2 ^ 52)"
    by (simp_all add: tenHzParams_def)
  have b: "(0::real) \<le> 7" "\<lfloor>7::real\<rfloor> \<le> maxSliceLen"
    by (simp_all add: maxSliceLen_def)
  have a0: "SamplingRate (tenHzParams\<lparr>Duration := Fin 0\<rparr>) = Fin 10"
    "Duration (tenHzParams\<lparr>Duration := Fin 0\<rparr>) = Fin 0"
    by (simp_all add: tenHzParams_def)
  have b0: "rnd64 (10 * 0) = Fin 0" "(0::real) \<le> 0" "\<lfloor>0::real\<rfloor> \<le> maxSliceLen"
    by (simp_all add: rnd64_def maxSliceLen_def)
  have c: "2 powr (- 500) \<le> \<bar>10::real\<bar>" "\<bar>10::real\<bar> \<le> 2 powr 500"
    by (simp_all add: powr_minus_divide)
  show ?thesis
    using generators_sample_count [OF a rnd64_seven b] generators_sample_count [OF a0 b0] c
    by simp
qed

text \<open>
  Claim C5 as stated fails twice. It promises a zero-length signal whenever the duration
  is not positive: with rate \<open>-4\<close> and duration \<open>-1/2\<close> the sample count is 2 and the
  baseband signal has two samples. And it puts the \<open>i\<close>-th timestamp at \<open>i / rate\<close>: at
  10 Hz the timestamp of index 3 is \<open>5404319552844596 / 2^54\<close> (printed
  \<^verbatim>\<open>0.30000000000000004\<close>), which is neither \<open>3 / 10\<close> nor the \<^verbatim>\<open>float64\<close> quotient
  \<^verbatim>\<open>3.0 / 10.0\<close>.
\<close>

theorem negative_duration_not_empty:
  "generateBaseband bothNegativeParams
     = Inr \<lparr>Time = [Fin 0, Fin (- 1 / 4)], Values = [Fin 0, Fin (- 1)]\<rparr>
   \<and> map_sum id (\<lambda>sig. Time sig ! 3) (generateBaseband tenHzParams)
     = Inr (Fin (5404319552844596 / 2 ^ 54))
   \<and> Fin (5404319552844596 / 2 ^ 54) \<noteq> Fin (3 / 10)
   \<and> Fin (5404319552844596 / 2 ^ 54) \<noteq> rounded (fdiv (Fin 3) (Fin 10))"
proof -
  have "generateBaseband bothNegativeParams
          = Inr \<lparr>Time = [Fin 0, Fin (- 1 / 4)], Values = [Fin 0, Fin (- 1)]\<rparr>"
    by (simp add: generateBaseband_def generateTimeVector_def goInt_def bothNegativeParams_def
        ofNat_def message_def twoPi_def upt_rec rounded_def rnd64_small makeslicePanics_def
        maxSliceLen_def)
  moreover have "map_sum id (\<lambda>sig. Time sig ! 3) (generateBaseband tenHzParams)
          = Inr (Fin (5404319552844596 / 2 ^ 54))"
  proof -
    define f where "f = (\<lambda>i. rounded (fmul (ofNat i) (rounded (fdiv (Fin 1) (Fin 10)))))"
    have tv: "generateTimeVector tenHzParams = Inr (map f [0..<7])"
      unfolding f_def
      using generateTimeVector_rounded [of tenHzParams 10 "3152519739159347 / 2 ^ 52" 7,
          OF _ _ rnd64_seven]
      by (simp add: tenHzParams_def maxSliceLen_def)
    have dt: "rounded (fdiv (Fin 1) (Fin 10)) = Fin (7205759403792794 / 2 ^ 56)"
      unfolding rounded_def using rnd64_tenth by simp
    have m3: "fmul (ofNat 3) (Fin (7205759403792794 / 2 ^ 56))
                = Fin (3 * (7205759403792794 / 2 ^ 56))"
      by (simp add: ofNat_def)
    have "f 3 = rounded (fmul (ofNat 3) (Fin (7205759403792794 / 2 ^ 56)))"
      unfolding f_def by (simp only: dt)
    also have "\<dots> = rounded (Fin (3 * (7205759403792794 / 2 ^ 56)))"
      by (simp only: m3)
    also have "\<dots> = Fin (5404319552844596 / 2 ^ 54)"
      by (simp only: rounded_def float64.case rnd64_three_tenths)
    finally have f3: "f 3 = Fin (5404319552844596 / 2 ^ 54)" .
    have nth: "map f [0..<7] ! 3 = f 3"
      by simp
    show ?thesis
      by (simp only: generateBaseband_def tv sum.case map_sum.simps Signal.simps nth f3
          id_apply)
  qed
  moreover have "Fin (5404319552844596 / 2 ^ 54) \<noteq> Fin (3 / 10)"
    by simp
  moreover have "Fin (5404319552844596 / 2 ^ 54) \<noteq> rounded (fdiv (Fin 3) (Fin 10))"
    by (simp add: rounded_def rnd64_three_tenths)
  ultimately show ?thesis
    by blast
qed

text \<open>
  Claim C6. No generator is to panic on degenerate parameters. The parameters that the
  repository's own robustness test passes (sampling rate \<open>-1000\<close>, duration \<open>0.1\<close>) give
  the sample count \<open>-100\<close>, and every generator panics in \<^verbatim>\<open>make\<close>.
\<close>

theorem generators_panic_on_invalidParams:
  "generateTimeVector invalidParams = Inl MakesliceLenOutOfRange
   \<and> generateBaseband invalidParams = Inl MakesliceLenOutOfRange
   \<and> generateCarrier invalidParams = Inl MakesliceLenOutOfRange
   \<and> generateAM invalidParams = Inl MakesliceLenOutOfRange
   \<and> generateFM invalidParams = Inl MakesliceLenOutOfRange"
  by (simp add: generateBaseband_def generateCarrier_def generateAM_def generateFM_def
      generateTimeVector_def goInt_def invalidParams_def rounded_def rnd64_small
      makeslicePanics_def)

section \<open>Properties of the noise injector\<close>

lemma fadd_zero_right: "fadd x (Fin 0) = x"
  by (cases x) simp_all

lemma addNoiseRNG_eq:
  "addNoiseRNG sd vals g =
     (map (\<lambda>(v, z). fadd v (fmul z sd)) (zip vals (stake (length vals) g)),
      sdrop (length vals) g)"
  by (induction vals arbitrary: g) (simp_all add: Let_def)

lemma addNoiseDefault_eq:
  "addNoiseDefault sd vals g =
     (map (\<lambda>(v, z). fadd v (fmul z sd)) (zip vals (stake (length vals) g)),
      sdrop (length vals) g)"
  by (induction vals arbitrary: g) (simp_all add: Let_def normalRand_def fadd_zero_right)

lemma noiseStdDev_sigmaFor: "noiseStdDev vals T = sigmaFor vals T"
  by (simp add: noiseStdDev_def sigmaFor_def meanSquare_def signalPower_def fsum_def
      foldl_map Let_def)

text \<open>
  Claim C3. Both entry points return a new signal with the timestamps and the length of
  the input; its \<open>i\<close>-th value is the \<open>i\<close>-th input value plus the \<open>i\<close>-th draw of the
  generator scaled by \<open>sqrt (meanSquare input / 10^(T/10))\<close>, and the generator is left
  advanced by one draw per sample. The draws are the library's standard normal samples,
  independent and of mean zero by its contract, so the scaled draw has the stated
  standard deviation. The input is a value and cannot be modified.
\<close>

theorem addAWGN_values:
  "addAWGNWithRNG signal T g =
     (\<lparr>Time = Time signal,
       Values = map (\<lambda>(v, z). fadd v (fmul z (sigmaFor (Values signal) T)))
                    (zip (Values signal) (stake (length (Values signal)) g))\<rparr>,
      sdrop (length (Values signal)) g)
   \<and> addAWGN signal T g = addAWGNWithRNG signal T g
   \<and> length (Values (fst (addAWGNWithRNG signal T g))) = length (Values signal)"
  by (simp add: addAWGNWithRNG_def addAWGN_def addNoiseRNG_eq addNoiseDefault_eq
      noiseStdDev_sigmaFor)

section \<open>Properties of the demodulators\<close>

lemma length_movingAverage: "length (movingAverage xs) = length xs"
  by (simp add: movingAverage_def)

lemma length_quadSignal: "vals \<noteq> [] \<Longrightarrow> length (quadSignal vals) = length vals"
  by (simp add: quadSignal_def)

lemma quadSignal_nth:
  assumes "i < length vals"
  shows "quadSignal vals ! i = vals ! (i - 1)"
proof (cases i)
  case 0
  with assms show ?thesis
    by (cases vals) (simp_all add: quadSignal_def)
next
  case (Suc j)
  with assms show ?thesis
    by (simp add: quadSignal_def nth_butlast)
qed

text \<open>
  On a non-empty input the FM demodulator returns a signal of the same length: the
  smoothing of the raw discriminator output, which is zero at index 0 and, at \<open>i \<ge> 1\<close>,
  the cross-product formula on \<open>I = x\<^sub>i\<close> and the delayed \<open>Q = x\<^bsub>i-1\<^esub>\<close>.
\<close>

lemma demodulateFM_nonempty:
  assumes "Values signal \<noteq> []"
  shows "demodulateFM signal params
           = Inr \<lparr>Time = Time signal, Values = movingAverage (rawFM params (Values signal))\<rparr>"
    and "length (rawFM params (Values signal)) = length (Values signal)"
    and "rawFM params (Values signal) ! 0 = Fin 0"
    and "\<forall>i. 1 \<le> i \<and> i < length (Values signal) \<longrightarrow>
           rawFM params (Values signal) ! i =
             (let x = Values signal; dt = fdiv (Fin 1) (SamplingRate params);
                  I = x ! i; Q = x ! (i - 1);
                  dI = fsub I (x ! (i - 1)); dQ = fsub Q (x ! (i - 2));
                  denominator = fadd (fmul I I) (fmul Q Q)
              in if fgt denominator (Fin (1 / 10 ^ 10))
                 then fdiv (fdiv (fsub (fmul I dQ) (fmul Q dI))
                                 (fmul (fmul twoPi dt) denominator))
                           (ModulationIdx params)
                 else Fin 0)"
proof -
  show "demodulateFM signal params
          = Inr \<lparr>Time = Time signal, Values = movingAverage (rawFM params (Values signal))\<rparr>"
    using assms by (simp add: demodulateFM_def)
  show "length (rawFM params (Values signal)) = length (Values signal)"
  proof -
    have "1 \<le> length (Values signal)"
      using assms by (cases "Values signal") simp_all
    then show ?thesis
      by (simp add: rawFM_def Let_def)
  qed
  show "rawFM params (Values signal) ! 0 = Fin 0"
    by (simp add: rawFM_def Let_def)
  show "\<forall>i. 1 \<le> i \<and> i < length (Values signal) \<longrightarrow>
           rawFM params (Values signal) ! i =
             (let x = Values signal; dt = fdiv (Fin 1) (SamplingRate params);
                  I = x ! i; Q = x ! (i - 1);
                  dI = fsub I (x ! (i - 1)); dQ = fsub Q (x ! (i - 2));
                  denominator = fadd (fmul I I) (fmul Q Q)
              in if fgt denominator (Fin (1 / 10 ^ 10))
                 then fdiv (fdiv (fsub (fmul I dQ) (fmul Q dI))
                                 (fmul (fmul twoPi dt) denominator))
                           (ModulationIdx params)
                 else Fin 0)"
  proof (intro allI impI)
    fix i assume i: "1 \<le> i \<and> i < length (Values signal)"
    then obtain j where j: "i = Suc j" by (cases i) auto
    have q1: "quadSignal (Values signal) ! i = Values signal ! (i - 1)"
      using i by (simp add: quadSignal_nth)
    have "i - 1 < length (Values signal)"
      using i by linarith
    then have q2: "quadSignal (Values signal) ! (i - 1) = Values signal ! (i - 2)"
      using quadSignal_nth [of "i - 1" "Values signal"]
      by (simp add: numeral_2_eq_2)
    have "rawFM params (Values signal) ! i =
            discriminate params (fdiv (Fin 1) (SamplingRate params))
              (Values signal ! i) (quadSignal (Values signal) ! i)
              (Values signal ! (i - 1)) (quadSignal (Values signal) ! (i - 1))"
    proof -
      have "[Suc 0..<length (Values signal)] ! j = Suc j"
        using i j nth_upt [of "Suc 0" j "length (Values signal)"] by simp
      then show ?thesis
        using i unfolding j rawFM_def Let_def by (simp del: upt_Suc)
    qed
    then show "rawFM params (Values signal) ! i =
             (let x = Values signal; dt = fdiv (Fin 1) (SamplingRate params);
                  I = x ! i; Q = x ! (i - 1);
                  dI = fsub I (x ! (i - 1)); dQ = fsub Q (x ! (i - 2));
                  denominator = fadd (fmul I I) (fmul Q Q)
              in if fgt denominator (Fin (1 / 10 ^ 10))
                 then fdiv (fdiv (fsub (fmul I dQ) (fmul Q dI))
                                 (fmul (fmul twoPi dt) denominator))
                           (ModulationIdx params)
                 else Fin 0)"
      using q1 q2 by (simp add: discriminate_def Let_def)
  qed
qed

text \<open>
  Claim C4. The FM demodulator is to return an output of length \<open>n\<close> for every input of
  length \<open>n\<close>. On the empty signal, which every generator returns at zero duration, it
  reads \<^verbatim>\<open>signal.Values[0]\<close> and panics.
\<close>

theorem demodulateFM_empty_panics:
  "demodulateFM emptySignal params = Inl IndexOutOfRange
   \<and> demodulateAM emptySignal = emptySignal"
  by (simp add: demodulateFM_def demodulateAM_def emptySignal_def movingAverage_def)

lemma nonnegOrInf_fabs: "x \<noteq> NaN \<Longrightarrow> nonnegOrInf (fabs x)"
  by (cases x) (simp_all add: nonnegOrInf_def)

lemma nonnegOrInf_fadd: "nonnegOrInf x \<Longrightarrow> nonnegOrInf y \<Longrightarrow> nonnegOrInf (fadd x y)"
  by (cases x; cases y) (simp_all add: nonnegOrInf_def)

lemma nonnegOrInf_foldl:
  "nonnegOrInf acc \<Longrightarrow> \<forall>x \<in> set xs. nonnegOrInf x \<Longrightarrow> nonnegOrInf (foldl fadd acc xs)"
  by (induction xs arbitrary: acc) (simp_all add: nonnegOrInf_fadd)

lemma nonnegOrInf_fdiv: "nonnegOrInf x \<Longrightarrow> 0 < c \<Longrightarrow> nonnegOrInf (fdiv x (Fin c))"
  by (cases x) (simp_all add: nonnegOrInf_def)

lemma nonnegOrInf_fge: "nonnegOrInf x \<Longrightarrow> fge x (Fin 0)"
  by (cases x) (auto simp: nonnegOrInf_def fge_def feq_def)

lemma set_windowAt: "set (windowAt xs i) \<subseteq> set xs"
  unfolding windowAt_def Let_def
  by (meson set_take_subset set_drop_subset subset_trans)

lemma length_windowAt: "i < length xs \<Longrightarrow> 0 < length (windowAt xs i)"
  by (simp add: windowAt_def Let_def windowSize_def)

lemma movingAverage_nonneg:
  assumes "\<forall>x \<in> set xs. nonnegOrInf x"
  shows "\<forall>y \<in> set (movingAverage xs). nonnegOrInf y"
proof
  fix y assume "y \<in> set (movingAverage xs)"
  then obtain i where i: "i < length xs"
    and y: "y = fdiv (fsum (windowAt xs i)) (ofNat (length (windowAt xs i)))"
    by (auto simp: movingAverage_def)
  have "\<forall>x \<in> set (windowAt xs i). nonnegOrInf x"
    using assms set_windowAt by blast
  then have "nonnegOrInf (fsum (windowAt xs i))"
    unfolding fsum_def by (intro nonnegOrInf_foldl) (simp_all add: nonnegOrInf_def)
  then show "nonnegOrInf y"
    unfolding y ofNat_def using length_windowAt [OF i] by (intro nonnegOrInf_fdiv) simp_all
qed

text \<open>
  Claim C10 (as amended). On every input without a NaN sample the envelope demodulator
  returns as many samples as it received, each of them \<open>\<ge> 0\<close> (a nonnegative number or
  \<open>+\<infinity>\<close>), being a mean of absolute values over the clamped window.
\<close>

theorem demodulateAM_nonneg:
  assumes "\<forall>v \<in> set (Values signal). v \<noteq> NaN"
  shows "length (Values (demodulateAM signal)) = length (Values signal)
       \<and> (\<forall>y \<in> set (Values (demodulateAM signal)). fge y (Fin 0))"
proof -
  have "\<forall>x \<in> set (map fabs (Values signal)). nonnegOrInf x"
    using assms by (auto intro: nonnegOrInf_fabs)
  then have "\<forall>y \<in> set (movingAverage (map fabs (Values signal))). nonnegOrInf y"
    by (rule movingAverage_nonneg)
  then show ?thesis
    by (simp add: demodulateAM_def Let_def length_movingAverage nonnegOrInf_fge)
qed

theorem demodulateAM_nonneg_witness:
  "list_all (\<lambda>v. v \<noteq> NaN) (Values twoSamples)
   \<and> length (Values (demodulateAM twoSamples)) = 2
   \<and> list_all (\<lambda>y. fge y (Fin 0)) (Values (demodulateAM twoSamples))"
  using demodulateAM_nonneg [of twoSamples] by (simp add: twoSamples_def list_all_iff)

text \<open>
  Claim C10 as stated covers every input signal. A NaN sample makes the rectified value,
  the window sum and the mean NaN, and \<open>NaN \<ge> 0\<close> is false.
\<close>

theorem demodulateAM_NaN_counterexample:
  "Values (demodulateAM \<lparr>Time = [Fin 0], Values = [NaN]\<rparr>) = [NaN] \<and> \<not> fge NaN (Fin 0)"
  by (simp add: demodulateAM_def movingAverage_def windowAt_def windowSize_def fsum_def
      ofNat_def fge_def feq_def)

section \<open>Properties of the signal metrics\<close>

lemma snrLoop_sums:
  "length ns = length os \<Longrightarrow>
   snrLoop os ns (sp, np) =
     (foldl fadd sp (map (\<lambda>x. fmul x x) os),
      foldl fadd np (map (\<lambda>(y, x). fmul (fsub y x) (fsub y x)) (zip ns os)))"
  by (induction os ns arbitrary: sp np rule: list_induct2') (simp_all add: Let_def)

text \<open>
  Claim C7. For two signals of equal length the SNR metric takes the noise sample by
  sample as corrupted minus original, forms both powers as means of squares and returns
  \<open>10 * log10 (signalPower / noisePower)\<close>, or \<open>+\<infinity>\<close> when the noise power equals zero; it
  never panics. \<^verbatim>\<open>computeInputSNR\<close> computes the same.
\<close>

theorem calculateSNR_formula:
  assumes "length (Values corrupted) = length (Values original)"
  shows "calculateSNR original corrupted =
           Inr (let n = ofNat (length (Values original));
                    signalPower = fdiv (fsum (map (\<lambda>x. fmul x x) (Values original))) n;
                    noisePower = fdiv (fsum (map (\<lambda>(y, x). fmul (fsub y x) (fsub y x))
                                              (zip (Values corrupted) (Values original)))) n
                in if feq noisePower (Fin 0) then PInf
                   else fmul (Fin 10) (flog10 (fdiv signalPower noisePower)))
       \<and> computeInputSNR original corrupted = calculateSNR original corrupted"
  using assms
  by (simp add: calculateSNR_def computeInputSNR_def snrLoop_sums Let_def fsum_def)

theorem calculateSNR_formula_witness:
  "calculateSNR twoSamples twoSamples = Inr PInf
   \<and> calculateSNR twoSamples \<lparr>Time = [Fin 0, Fin 1], Values = [Fin 0, Fin 0]\<rparr> = Inr (Fin 0)
   \<and> computeInputSNR twoSamples twoSamples = Inr PInf"
  using calculateSNR_formula [of twoSamples twoSamples]
    calculateSNR_formula [of "\<lparr>Time = [Fin 0, Fin 1], Values = [Fin 0, Fin 0]\<rparr>" twoSamples]
  by (simp add: twoSamples_def fsum_def fsub_def ofNat_def feq_def)

text \<open>The standard deviation of finitely many finite values.\<close>

lemma all_finite_map_Fin: "list_all isFinite ms \<Longrightarrow> \<exists>rs. ms = map Fin rs"
proof (induction ms)
  case Nil
  then show ?case by simp
next
  case (Cons m ms)
  then obtain rs where "ms = map Fin rs" by auto
  moreover from Cons.prems obtain r where "m = Fin r" by (cases m) auto
  ultimately have "m # ms = map Fin (r # rs)" by simp
  then show ?case by (rule exI [of _ "r # rs"])
qed

lemma foldl_fadd_Fin: "foldl fadd (Fin a) (map Fin rs) = Fin (a + sum_list rs)"
  by (induction rs arbitrary: a) (simp_all add: add.assoc)

lemma foldl_sq_Fin:
  "foldl (\<lambda>acc val. fadd acc (fmul (fsub val (Fin mu)) (fsub val (Fin mu)))) (Fin a) (map Fin rs)
     = Fin (a + (\<Sum>r\<leftarrow>rs. (r - mu) * (r - mu)))"
  by (induction rs arbitrary: a) (simp_all add: fsub_def add.assoc)

lemma calculateStdDev_sum:
  "calculateStdDev ms mean =
     fsqrt (fdiv (fsum (map (\<lambda>x. fmul (fsub x mean) (fsub x mean)) ms))
                 (ofInt (int (length ms) - 1)))"
  by (simp add: calculateStdDev_def fsum_def foldl_map Let_def)

lemma stdDev_finite_nonneg:
  assumes "list_all isFinite ms" and "2 \<le> length ms"
  shows "\<exists>s\<ge>0. calculateStdDev ms (calculateMean ms) = Fin s"
proof -
  from assms(1) obtain rs where ms: "ms = map Fin rs"
    using all_finite_map_Fin by blast
  with assms(2) have n: "2 \<le> length rs" by simp
  then have ne: "rs \<noteq> []" by auto
  then have mean: "calculateMean ms = Fin (sum_list rs / real (length rs))"
    by (simp add: ms calculateMean_def fsum_def foldl_fadd_Fin ofNat_def)
  let ?ss = "\<Sum>r\<leftarrow>rs. (r - sum_list rs / real (length rs)) * (r - sum_list rs / real (length rs))"
  have ss: "0 \<le> ?ss" by (intro sum_list_nonneg) auto
  have "calculateStdDev ms (calculateMean ms) = Fin (sqrt (?ss / (real (length rs) - 1)))"
    using n ss unfolding mean
    by (simp add: ms calculateStdDev_def foldl_sq_Fin ofInt_def Let_def not_less
        divide_nonneg_nonneg)
  moreover have "0 \<le> sqrt (?ss / (real (length rs) - 1))"
    using n ss by (simp add: divide_nonneg_nonneg)
  ultimately show ?thesis by blast
qed

section \<open>The trial runner returns\<close>

lemma AM_neq_FM: "AM \<noteq> FM"
  by (simp add: AM_def FM_def)

lemma generators_lengths:
  assumes "generateTimeVector params = Inr time"
  shows "\<exists>vs. generateBaseband params = Inr \<lparr>Time = time, Values = vs\<rparr>
              \<and> length vs = length time"
    and "\<exists>vs. generateAM params = Inr \<lparr>Time = time, Values = vs\<rparr> \<and> length vs = length time"
    and "\<exists>vs. generateFM params = Inr \<lparr>Time = time, Values = vs\<rparr> \<and> length vs = length time"
  using assms
  by (simp_all add: generateBaseband_def generateAM_def generateFM_def Let_def
      length_generateFM_loop)

lemma length_addAWGNWithRNG:
  "length (Values (fst (addAWGNWithRNG signal T g))) = length (Values signal)"
  by (simp add: addAWGNWithRNG_def addNoiseRNG_eq)

lemma length_rawFM:
  assumes "vals \<noteq> []"
  shows "length (rawFM params vals) = length vals"
proof -
  from assms have "1 \<le> length vals" by (cases vals) simp_all
  then show ?thesis by (simp add: rawFM_def Let_def)
qed

lemma calculateSNR_returns:
  "length (Values original) \<le> length (Values noisy) \<Longrightarrow>
   \<exists>x. calculateSNR original noisy = Inr x"
  by (auto simp: calculateSNR_def Let_def split: prod.splits)

text \<open>
  When the time vector can be allocated, and is not empty in the FM case, a trial
  returns: the score of the demodulator's output against the baseband message.
\<close>

lemma runTrial_unfolded:
  assumes "generateTimeVector params = Inr time"
    and "modType = AM \<or> (modType = FM \<and> time \<noteq> [])"
  shows "\<exists>originalMessage modulated demodulated outputSNR.
           generateBaseband params = Inr originalMessage
         \<and> (if modType = AM then generateAM params else generateFM params) = Inr modulated
         \<and> (if modType = AM
             then Inr (demodulateAM (fst (addAWGNWithRNG modulated targetSNR g)))
             else demodulateFM (fst (addAWGNWithRNG modulated targetSNR g)) params)
            = Inr demodulated
         \<and> calculateSNR originalMessage demodulated = Inr outputSNR
         \<and> runTrial modType params targetSNR g
            = Inr (outputSNR, snd (addAWGNWithRNG modulated targetSNR g))"
proof -
  from generators_lengths(1) [OF assms(1)] obtain bs
    where bb: "generateBaseband params = Inr \<lparr>Time = time, Values = bs\<rparr>"
      and lb: "length bs = length time" by blast
  show ?thesis
  proof (cases "modType = AM")
    case True
    from generators_lengths(2) [OF assms(1)] obtain vs
      where am: "generateAM params = Inr \<lparr>Time = time, Values = vs\<rparr>"
        and lv: "length vs = length time" by blast
    let ?noisy = "fst (addAWGNWithRNG \<lparr>Time = time, Values = vs\<rparr> targetSNR g)"
    have "length (Values (demodulateAM ?noisy)) = length time"
      using lv by (simp add: demodulateAM_def length_movingAverage length_addAWGNWithRNG)
    then obtain x
      where x: "calculateSNR \<lparr>Time = time, Values = bs\<rparr> (demodulateAM ?noisy) = Inr x"
      using lb calculateSNR_returns [of "\<lparr>Time = time, Values = bs\<rparr>" "demodulateAM ?noisy"]
      by auto
    show ?thesis
      using True bb am x
      apply (rule_tac x = "\<lparr>Time = time, Values = bs\<rparr>" in exI)
      apply (rule_tac x = "\<lparr>Time = time, Values = vs\<rparr>" in exI)
      apply (rule_tac x = "demodulateAM ?noisy" in exI)
      apply (rule_tac x = x in exI)
      apply (simp add: runTrial_def computeOutputSNR_def case_prod_beta Let_def)
      done
  next
    case False
    with assms(2) have fm: "modType = FM" and ne: "time \<noteq> []" by auto
    from generators_lengths(3) [OF assms(1)] obtain vs
      where gf: "generateFM params = Inr \<lparr>Time = time, Values = vs\<rparr>"
        and lv: "length vs = length time" by blast
    let ?noisy = "fst (addAWGNWithRNG \<lparr>Time = time, Values = vs\<rparr> targetSNR g)"
    have ln: "length (Values ?noisy) = length time"
      using lv by (simp add: length_addAWGNWithRNG)
    with ne have nn: "Values ?noisy \<noteq> []" by auto
    let ?demod = "\<lparr>Time = Time ?noisy,
                    Values = movingAverage (rawFM params (Values ?noisy))\<rparr>"
    have dm: "demodulateFM ?noisy params = Inr ?demod"
      using nn by (simp add: demodulateFM_def)
    have "length (Values ?demod) = length time"
      using nn ln by (simp add: length_movingAverage length_rawFM)
    then obtain x where x: "calculateSNR \<lparr>Time = time, Values = bs\<rparr> ?demod = Inr x"
      using lb calculateSNR_returns [of "\<lparr>Time = time, Values = bs\<rparr>" ?demod] by auto
    show ?thesis
      using False fm bb gf dm x
      apply (rule_tac x = "\<lparr>Time = time, Values = bs\<rparr>" in exI)
      apply (rule_tac x = "\<lparr>Time = time, Values = vs\<rparr>" in exI)
      apply (rule_tac x = ?demod in exI)
      apply (rule_tac x = x in exI)
      apply (simp add: runTrial_def computeOutputSNR_def case_prod_beta Let_def)
      done
  qed
qed

section \<open>Properties of the aggregator\<close>

text \<open>A trial takes one draw per sample and leaves the generator advanced by as many.\<close>

lemma runTrial_state:
  assumes "generateTimeVector params = Inr time"
    and "modType = AM \<or> (modType = FM \<and> time \<noteq> [])"
  shows "\<exists>x. runTrial modType params targetSNR g = Inr (x, sdrop (length time) g)"
proof -
  from runTrial_unfolded [OF assms, of targetSNR g] obtain modulated outputSNR
    where m: "(if modType = AM then generateAM params else generateFM params) = Inr modulated"
      and r: "runTrial modType params targetSNR g
                = Inr (outputSNR, snd (addAWGNWithRNG modulated targetSNR g))"
    by blast
  from m generators_lengths(2,3) [OF assms(1)] have "length (Values modulated) = length time"
    by (auto split: if_splits)
  then have "snd (addAWGNWithRNG modulated targetSNR g) = sdrop (length time) g"
    by (simp add: addAWGNWithRNG_def addNoiseRNG_eq)
  with r show ?thesis by simp
qed

text \<open>
  The trial loop: trial \<open>j\<close> is the trial runner on the generator as the trials before
  it have left it, and its score is measurement \<open>j\<close>.
\<close>

lemma trials_states:
  assumes "generateTimeVector params = Inr time"
    and "modType = AM \<or> (modType = FM \<and> time \<noteq> [])"
  shows "\<exists>ms. trials modType params targetSNR k g = Inr (ms, sdrop (k * length time) g)
            \<and> length ms = k
            \<and> (\<forall>j<k. runTrial modType params targetSNR (sdrop (j * length time) g)
                        = Inr (ms ! j, sdrop (Suc j * length time) g))"
proof (induction k arbitrary: g)
  case 0
  then show ?case by simp
next
  case (Suc k)
  let ?n = "length time"
  obtain x where x: "runTrial modType params targetSNR g = Inr (x, sdrop ?n g)"
    using runTrial_state [OF assms] by blast
  obtain ms
    where ms: "trials modType params targetSNR k (sdrop ?n g)
                 = Inr (ms, sdrop (k * ?n) (sdrop ?n g))"
      and len: "length ms = k"
      and each: "\<forall>j<k. runTrial modType params targetSNR (sdrop (j * ?n) (sdrop ?n g))
                          = Inr (ms ! j, sdrop (Suc j * ?n) (sdrop ?n g))"
    using Suc [of "sdrop ?n g"] by blast
  have "trials modType params targetSNR (Suc k) g = Inr (x # ms, sdrop (Suc k * ?n) g)"
    using x ms by (simp add: sdrop_add add.commute)
  moreover have "length (x # ms) = Suc k"
    using len by simp
  moreover have "\<forall>j<Suc k. runTrial modType params targetSNR (sdrop (j * ?n) g)
                              = Inr ((x # ms) ! j, sdrop (Suc j * ?n) g)"
  proof (intro allI impI)
    fix j assume j: "j < Suc k"
    show "runTrial modType params targetSNR (sdrop (j * ?n) g)
            = Inr ((x # ms) ! j, sdrop (Suc j * ?n) g)"
    proof (cases j)
      case 0
      with x show ?thesis by simp
    next
      case (Suc i)
      with j have "i < k" by simp
      with each have "runTrial modType params targetSNR (sdrop (i * ?n) (sdrop ?n g))
                        = Inr (ms ! i, sdrop (Suc i * ?n) (sdrop ?n g))"
        by blast
      then show ?thesis
        by (simp add: Suc sdrop_add add.commute)
    qed
  qed
  ultimately show ?case by blast
qed

text \<open>
  What the aggregator returns when it returns. Let the time vector be allocated (and not
  be empty in the FM case) and let the trial count be a length that \<^verbatim>\<open>make\<close> accepts.
  The aggregator has run the trial runner once per trial, each time on the generator as
  the trial before left it, and collected the scores. The reported output SNR is their
  sum divided by their number, whatever the values (a NaN or an infinity among them is
  summed like the rest), and the reported deviation is the square root of the sum of
  squared differences from that mean divided by \<open>N - 1\<close>. With at least two trials and
  only finite measurements the deviation is \<open>\<ge> 0\<close>.
\<close>

lemma runSingleSNRSimulation_returns:
  assumes "generateTimeVector params = Inr time"
    and "modType = AM \<or> (modType = FM \<and> time \<noteq> [])"
    and "\<not> makeslicePanics numIterations"
  shows "\<exists>result measurements.
           runSingleSNRSimulation modType params targetSNR numIterations g
             = Inr (result, sdrop (nat numIterations * length time) g)
         \<and> int (length measurements) = numIterations
         \<and> (\<forall>k<length measurements.
               runTrial modType params targetSNR (sdrop (k * length time) g)
                 = Inr (measurements ! k, sdrop (Suc k * length time) g))
         \<and> OutputSNR_dB result = fdiv (fsum measurements) (ofNat (length measurements))
         \<and> StdDev result =
             fsqrt (fdiv (fsum (map (\<lambda>x. fmul (fsub x (OutputSNR_dB result))
                                               (fsub x (OutputSNR_dB result))) measurements))
                         (ofInt (int (length measurements) - 1)))
         \<and> InputSNR_dB result = targetSNR \<and> ModulationType result = modType
         \<and> NumTrials result = numIterations
         \<and> (2 \<le> numIterations \<and> list_all isFinite measurements
              \<longrightarrow> fge (StdDev result) (Fin 0))"
proof -
  from assms(3) have nn: "0 \<le> numIterations"
    by (simp add: makeslicePanics_def)
  from trials_states [OF assms(1,2), of targetSNR "nat numIterations" g] obtain ms
    where tr: "trials modType params targetSNR (nat numIterations) g
                 = Inr (ms, sdrop (nat numIterations * length time) g)"
      and len: "length ms = nat numIterations"
      and each: "\<forall>j<nat numIterations.
                   runTrial modType params targetSNR (sdrop (j * length time) g)
                     = Inr (ms ! j, sdrop (Suc j * length time) g)"
    by blast
  define result where
    "result = \<lparr>InputSNR_dB = targetSNR, OutputSNR_dB = calculateMean ms,
                StdDev = calculateStdDev ms (calculateMean ms),
                ModulationType = modType, NumTrials = numIterations\<rparr>"
  have run: "runSingleSNRSimulation modType params targetSNR numIterations g
               = Inr (result, sdrop (nat numIterations * length time) g)"
    using assms(3) tr by (simp add: runSingleSNRSimulation_def Let_def result_def)
  have sd: "fge (StdDev result) (Fin 0)"
    if "2 \<le> numIterations" and "list_all isFinite ms"
  proof -
    from that(1) len have "2 \<le> length ms" by simp
    with that(2) obtain s where "0 \<le> s" "StdDev result = Fin s"
      using stdDev_finite_nonneg [of ms] by (auto simp: result_def)
    then show ?thesis
      by (auto simp: fge_def feq_def)
  qed
  have "int (length ms) = numIterations"
    using nn len by simp
  moreover have "\<forall>k<length ms. runTrial modType params targetSNR (sdrop (k * length time) g)
                                  = Inr (ms ! k, sdrop (Suc k * length time) g)"
    using each len by simp
  moreover have "OutputSNR_dB result = fdiv (fsum ms) (ofNat (length ms))"
    by (simp add: result_def calculateMean_def)
  moreover have "StdDev result =
             fsqrt (fdiv (fsum (map (\<lambda>x. fmul (fsub x (OutputSNR_dB result))
                                               (fsub x (OutputSNR_dB result))) ms))
                         (ofInt (int (length ms) - 1)))"
    by (simp add: result_def calculateStdDev_sum)
  moreover have "InputSNR_dB result = targetSNR" "ModulationType result = modType"
    "NumTrials result = numIterations"
    by (simp_all add: result_def)
  ultimately show ?thesis
    using run sd by blast
qed

text \<open>The pipeline on the empty signal, which every generator returns for a zero duration.\<close>

lemma generateTimeVector_zeroDuration: "generateTimeVector zeroDurationParams = Inr []"
  by (simp add: zeroDurationParams_def generateTimeVector_def goInt_def rounded_def
      rnd64_small makeslicePanics_def maxSliceLen_def)

lemma generators_zeroDuration:
  "generateBaseband zeroDurationParams = Inr emptySignal"
  "generateAM zeroDurationParams = Inr emptySignal"
  "generateFM zeroDurationParams = Inr emptySignal"
  by (simp_all add: generateBaseband_def generateAM_def generateFM_def
      generateTimeVector_zeroDuration emptySignal_def)

lemma addAWGN_empty:
  "addAWGN emptySignal T g = (emptySignal, g)"
  "addAWGNWithRNG emptySignal T g = (emptySignal, g)"
  by (simp_all add: addAWGN_def addAWGNWithRNG_def emptySignal_def)

lemma demodulate_empty:
  "demodulateAM emptySignal = emptySignal"
  "demodulateFM emptySignal params = Inl IndexOutOfRange"
  by (simp_all add: demodulateAM_def demodulateFM_def emptySignal_def movingAverage_def)

text \<open>
  Claim C8. The aggregator is to return one result at every SNR point. On the parameters
  of the ``Zero Duration'' test the FM aggregator returns none: its first trial panics,
  the FM demodulator indexing the empty signal, whatever the target and the generator.
\<close>

theorem runSingleSNRSimulation_FM_zeroDuration:
  "runSingleSNRSimulation FM zeroDurationParams targetSNR 1 g = Inl IndexOutOfRange"
proof -
  have "runTrial FM zeroDurationParams targetSNR g = Inl IndexOutOfRange"
    using AM_neq_FM
    by (simp add: runTrial_def generators_zeroDuration addAWGN_empty demodulate_empty)
  then show ?thesis
    by (simp add: runSingleSNRSimulation_def makeslicePanics_def maxSliceLen_def)
qed

section \<open>The trial runner and alignment\<close>

text \<open>The FM pipeline on eleven samples, with and without the alignment step.\<close>

lemma upt_11: "[0..<11] = [0, 1, 2, 3, 4, 5, 6, 7, 8, 9, 10]"
  by (simp add: upt_rec)

lemma upto_unit: "[- 1..1] = [- 1, 0, 1::int]"
  by (simp add: upto.simps)

lemma sin_three_half_pi: "sin (3 * pi / 2) = - 1"
proof -
  have "sin (3 * pi / 2) = sin (pi / 2 + pi)" by (simp add: field_simps)
  then show ?thesis by (simp only: sin_periodic_pi sin_pi_half)
qed

lemma sin_odd_half_pi:
  "sin (5 * pi / 2) = 1" "sin (7 * pi / 2) = - 1" "sin (9 * pi / 2) = 1"
proof -
  have b: "sin (5 * pi / 2) = sin (pi / 2 + 2 * pi)" by (simp add: field_simps)
  show five: "sin (5 * pi / 2) = 1"
    unfolding b by (simp only: sin_periodic sin_pi_half)
  have c: "sin (7 * pi / 2) = sin (3 * pi / 2 + 2 * pi)" by (simp add: field_simps)
  show "sin (7 * pi / 2) = - 1"
    unfolding c by (simp only: sin_periodic sin_three_half_pi)
  have d: "sin (9 * pi / 2) = sin (5 * pi / 2 + 2 * pi)" by (simp add: field_simps)
  show "sin (9 * pi / 2) = 1"
    unfolding d by (simp only: sin_periodic five)
qed

lemma generateTimeVector_quarter: "generateTimeVector quarterParams = Inr quarterTime"
  by (simp add: quarterParams_def generateTimeVector_def goInt_def upt_11 ofNat_def
      quarterTime_def rounded_def rnd64_small makeslicePanics_def maxSliceLen_def)

lemma generateBaseband_quarter: "generateBaseband quarterParams = Inr quarterMessage"
  by (simp add: generateTimeVector_quarter generateBaseband_def)
     (simp add: quarterParams_def message_def twoPi_def sin_three_half_pi sin_odd_half_pi
      quarterMessage_def quarterTime_def)

lemma generateFM_quarter: "generateFM quarterParams = Inr quarterFM"
  by (simp add: generateTimeVector_quarter generateFM_def)
     (simp add: quarterParams_def message_def twoPi_def sin_three_half_pi sin_odd_half_pi
      Let_def quarterFM_def quarterTime_def)

text \<open>At a target of \<open>+\<infinity>\<close> dB the noise deviation is zero: every finite draw adds nothing.\<close>

lemma addAWGNWithRNG_quarter:
  "addAWGNWithRNG quarterFM PInf (sconst (Fin 1)) = (quarterFM, sconst (Fin 1))"
  by (simp add: addAWGNWithRNG_def noiseStdDev_def signalPower_def quarterFM_def ofNat_def)

lemma rawFM_quarter: "rawFM quarterParams (Values quarterFM) = quarterRaw (1 / (2 * (pi * pi)))"
  by (simp add: rawFM_def quarterFM_def quadSignal_def quarterParams_def upt_rec
      discriminate_def fsub_def twoPi_def quarterRaw_def)

lemma windowAt_quarter: "i < 11 \<Longrightarrow> windowAt (quarterRaw c) i = quarterRaw c"
  by (simp add: windowAt_def windowSize_def quarterRaw_def)

lemma movingAverage_quarter: "movingAverage (quarterRaw c) = replicate 11 (Fin (c / 11))"
proof -
  have "length (quarterRaw c) = 11" "fsum (quarterRaw c) = Fin c"
    by (simp_all add: quarterRaw_def fsum_def)
  then show ?thesis
    by (simp add: movingAverage_def upt_11 windowAt_quarter ofNat_def eval_nat_numeral)
qed

lemma demodulateFM_quarter: "demodulateFM quarterFM quarterParams = Inr quarterDemodulated"
proof -
  have "Values quarterFM \<noteq> []" "Time quarterFM = quarterTime"
    by (simp_all add: quarterFM_def)
  then show ?thesis
    by (simp add: demodulateFM_def rawFM_quarter movingAverage_quarter quarterDemodulated_def
        quarterLevel_def)
qed

lemma quarterLevel_pos: "0 < quarterLevel"
  by (simp add: quarterLevel_def)

lemma unaligned_noise_pos: "0 < 11 * (m * m) - 2 * m + 5" for m :: real
proof -
  have "11 * (m * m) - 2 * m + 5 = 10 * (m * m) + (m - 1) * (m - 1) + 4"
    by (simp add: algebra_simps)
  moreover have "0 \<le> m * m" "0 \<le> (m - 1) * (m - 1)" by simp_all
  ultimately show ?thesis by linarith
qed

lemma aligned_noise_pos: "0 < 10 * (m * m) - 2 * m + 5" for m :: real
proof -
  have "10 * (m * m) - 2 * m + 5 = 9 * (m * m) + (m - 1) * (m - 1) + 4"
    by (simp add: algebra_simps)
  moreover have "0 \<le> m * m" "0 \<le> (m - 1) * (m - 1)" by simp_all
  ultimately show ?thesis by linarith
qed

lemma calculateSNR_unaligned:
  "calculateSNR quarterMessage quarterDemodulated = Inr (Fin unalignedScore)"
proof -
  let ?m = quarterLevel
  have e: "6 * (?m * ?m) + (3 * ((?m - 1) * (?m - 1)) + 2 * ((?m + 1) * (?m + 1)))
             = 11 * (?m * ?m) - 2 * ?m + 5"
    by (simp add: algebra_simps)
  show ?thesis
    using unaligned_noise_pos [of ?m]
    by (simp add: calculateSNR_def quarterMessage_def quarterDemodulated_def eval_nat_numeral
        fsub_def ofNat_def feq_def e unalignedScore_def)
qed

text \<open>The search settles on the delay \<open>-1\<close>: the first sample is zero-filled.\<close>

lemma alignSignals_quarter:
  "alignSignals (Values quarterMessage) (Values quarterDemodulated)
     = Fin 0 # replicate 10 (Fin quarterLevel)"
  using quarterLevel_pos
  by (simp add: alignSignals_def quarterMessage_def quarterDemodulated_def maxDelayOf_def
      upto_unit correlationAt_def overlapIndices_def upt_11 ofNat_def Let_def
      eval_nat_numeral)

lemma calculateSNR_aligned:
  "calculateSNR quarterMessage
     \<lparr>Time = Time quarterMessage, Values = Fin 0 # replicate 10 (Fin quarterLevel)\<rparr>
   = Inr (Fin alignedScore)"
proof -
  let ?m = quarterLevel
  have e: "5 * (?m * ?m) + (3 * ((?m - 1) * (?m - 1)) + 2 * ((?m + 1) * (?m + 1)))
             = 10 * (?m * ?m) - 2 * ?m + 5"
    by (simp add: algebra_simps)
  have "calculateSNR quarterMessage
          \<lparr>Time = Time quarterMessage, Values = Fin 0 # replicate 10 (Fin ?m)\<rparr>
        = Inr (Fin (10 * log 10 (5 / (5 * (?m * ?m)
              + (3 * ((?m - 1) * (?m - 1)) + 2 * ((?m + 1) * (?m + 1)))))))"
    using aligned_noise_pos [of ?m] unfolding e [symmetric]
    by (simp add: calculateSNR_def quarterMessage_def eval_nat_numeral fsub_def ofNat_def
        feq_def)
  then show ?thesis
    by (simp only: e alignedScore_def)
qed

lemma runTrial_quarter:
  "runTrial FM quarterParams PInf (sconst (Fin 1)) = Inr (Fin unalignedScore, sconst (Fin 1))"
  using AM_neq_FM
  by (simp add: runTrial_def generateBaseband_quarter generateFM_quarter
      addAWGNWithRNG_quarter demodulateFM_quarter computeOutputSNR_def calculateSNR_unaligned)

lemma runTrialAligned_quarter:
  "runTrialAligned quarterParams PInf (sconst (Fin 1))
     = Inr (Fin alignedScore, sconst (Fin 1))"
  by (simp add: runTrialAligned_def generateBaseband_quarter generateFM_quarter
      addAWGNWithRNG_quarter demodulateFM_quarter alignSignals_quarter calculateSNR_aligned)

lemma scores_differ: "unalignedScore \<noteq> alignedScore"
proof -
  let ?m = quarterLevel
  have "0 < ?m * ?m" using quarterLevel_pos by simp
  then have "10 * (?m * ?m) - 2 * ?m + 5 < 11 * (?m * ?m) - 2 * ?m + 5" by simp
  then have "5 / (11 * (?m * ?m) - 2 * ?m + 5) < 5 / (10 * (?m * ?m) - 2 * ?m + 5)"
    using aligned_noise_pos [of ?m]
    by (intro divide_strict_left_mono mult_pos_pos unaligned_noise_pos) simp_all
  moreover have "0 < 5 / (11 * (?m * ?m) - 2 * ?m + 5)"
    using unaligned_noise_pos [of ?m] by simp
  moreover have "0 < 5 / (10 * (?m * ?m) - 2 * ?m + 5)"
    using aligned_noise_pos [of ?m] by simp
  ultimately have "log 10 (5 / (11 * (?m * ?m) - 2 * ?m + 5))
                 < log 10 (5 / (10 * (?m * ?m) - 2 * ?m + 5))"
    by (subst log_less_cancel_iff) simp_all
  then show ?thesis
    by (simp add: unalignedScore_def alignedScore_def)
qed

text \<open>
  Claim C2 (as amended). Whenever the time vector can be allocated (and is not empty in
  the FM case) a trial, AM or FM, returns the score of the demodulator's output itself
  against the baseband message: \<^verbatim>\<open>calculateSNR\<close> of the generated baseband and the
  demodulated noisy signal, with no alignment in between.
\<close>

theorem runTrial_scores_unaligned:
  assumes "generateTimeVector params = Inr time"
    and "modType = AM \<or> (modType = FM \<and> time \<noteq> [])"
  shows "\<exists>originalMessage modulated demodulated outputSNR.
           generateBaseband params = Inr originalMessage
         \<and> (if modType = AM then generateAM params else generateFM params) = Inr modulated
         \<and> (if modType = AM
             then Inr (demodulateAM (fst (addAWGNWithRNG modulated targetSNR g)))
             else demodulateFM (fst (addAWGNWithRNG modulated targetSNR g)) params)
            = Inr demodulated
         \<and> calculateSNR originalMessage demodulated = Inr outputSNR
         \<and> runTrial modType params targetSNR g
            = Inr (outputSNR, snd (addAWGNWithRNG modulated targetSNR g))"
  using assms by (rule runTrial_unfolded)

theorem runTrial_scores_unaligned_witness:
  "runTrial FM quarterParams PInf (sconst (Fin 1)) = Inr (Fin unalignedScore, sconst (Fin 1))
   \<and> demodulateFM (fst (addAWGNWithRNG quarterFM PInf (sconst (Fin 1)))) quarterParams
     = Inr quarterDemodulated
   \<and> calculateSNR quarterMessage quarterDemodulated = Inr (Fin unalignedScore)"
proof -
  have "FM = AM \<or> (FM = FM \<and> quarterTime \<noteq> [])"
    by (simp add: quarterTime_def)
  from runTrial_scores_unaligned [OF generateTimeVector_quarter this,
      of PInf "sconst (Fin 1)"]
  obtain originalMessage modulated demodulated outputSNR
    where "generateBaseband quarterParams = Inr originalMessage"
      and "(if FM = AM then generateAM quarterParams else generateFM quarterParams)
             = Inr modulated"
      and "(if FM = AM
            then Inr (demodulateAM (fst (addAWGNWithRNG modulated PInf (sconst (Fin 1)))))
            else demodulateFM (fst (addAWGNWithRNG modulated PInf (sconst (Fin 1))))
                   quarterParams) = Inr demodulated"
      and score: "calculateSNR originalMessage demodulated = Inr outputSNR"
      and run: "runTrial FM quarterParams PInf (sconst (Fin 1))
                  = Inr (outputSNR, snd (addAWGNWithRNG modulated PInf (sconst (Fin 1))))"
    by blast
  then have eqs: "originalMessage = quarterMessage" "modulated = quarterFM"
    "demodulated = quarterDemodulated"
    using AM_neq_FM
    by (simp_all add: generateBaseband_quarter generateFM_quarter addAWGNWithRNG_quarter
        demodulateFM_quarter)
  with score have "outputSNR = Fin unalignedScore"
    by (simp add: calculateSNR_unaligned)
  with run eqs show ?thesis
    by (simp add: addAWGNWithRNG_quarter demodulateFM_quarter calculateSNR_unaligned)
qed

text \<open>
  Claim C2 as stated has the FM trial align the demodulated output before scoring. On
  eleven samples at a noise-free target the trial runner returns the score of the
  unaligned output, the aligned pipeline returns another.
\<close>

theorem runTrial_FM_not_aligned:
  "runTrial FM quarterParams PInf (sconst (Fin 1)) = Inr (Fin unalignedScore, sconst (Fin 1))
   \<and> runTrialAligned quarterParams PInf (sconst (Fin 1))
     = Inr (Fin alignedScore, sconst (Fin 1))
   \<and> unalignedScore \<noteq> alignedScore"
  by (simp add: runTrial_quarter runTrialAligned_quarter scores_differ)

section \<open>Properties of the parallel distributor\<close>

text \<open>The collector writes each message at its index: the order of arrival is immaterial.\<close>

lemma foldl_update_nth:
  assumes "distinct (map fst msgs)" and "i < length arr"
  shows "foldl (\<lambda>results (index, result). results[index := result]) arr msgs ! i
           = (case map_of msgs i of None \<Rightarrow> arr ! i | Some r \<Rightarrow> r)"
  using assms
proof (induction msgs arbitrary: arr)
  case Nil
  then show ?case by simp
next
  case (Cons m msgs)
  obtain k r where m: "m = (k, r)" by (cases m)
  from Cons.prems have d: "distinct (map fst msgs)" and k: "k \<notin> fst ` set msgs"
    by (auto simp: m)
  from k have none: "map_of msgs k = None"
    by (simp add: map_of_eq_None_iff)
  have "foldl (\<lambda>results (index, result). results[index := result]) (arr[k := r]) msgs ! i
          = (case map_of msgs i of None \<Rightarrow> arr[k := r] ! i | Some r' \<Rightarrow> r')"
    using Cons.IH [OF d, of "arr[k := r]"] Cons.prems(2) by simp
  then show ?case
    using Cons.prems(2) none by (auto simp: m split: option.splits)
qed

lemma length_foldl_update:
  "length (foldl (\<lambda>results (index, result). results[index := result]) arr msgs) = length arr"
  by (induction msgs arbitrary: arr) (auto split: prod.splits)

lemma length_collect: "length (collect n msgs) = n"
  by (simp add: collect_def length_foldl_update)

lemma collect_nth:
  "distinct (map fst msgs) \<Longrightarrow> i < n \<Longrightarrow>
   collect n msgs ! i = (case map_of msgs i of None \<Rightarrow> zeroResult | Some r \<Rightarrow> r)"
  by (simp add: collect_def foldl_update_nth split: option.splits)

lemma collect_permutation:
  assumes "distinct (map fst msgs)" and "mset msgs' = mset msgs"
  shows "collect n msgs' = collect n msgs"
proof (rule nth_equalityI)
  show "length (collect n msgs') = length (collect n msgs)"
    by (simp add: length_collect)
next
  fix i assume "i < length (collect n msgs')"
  then have i: "i < n" by (simp add: length_collect)
  have "mset (map fst msgs') = mset (map fst msgs)"
    using assms(2) by (metis mset_map)
  then have d': "distinct (map fst msgs')"
    using assms(1) by (metis mset_eq_imp_distinct_iff)
  have "set msgs' = set msgs"
    using assms(2) by (rule mset_eq_setD)
  then have "map_of msgs' = map_of msgs"
    using assms(1) d' by (simp add: map_of_inject_set)
  then show "collect n msgs' ! i = collect n msgs ! i"
    using assms(1) d' i by (simp add: collect_nth)
qed

lemma collect_in_order:
  assumes "map fst msgs = [0..<n]"
  shows "collect n msgs = map snd msgs"
proof (rule nth_equalityI)
  from assms have len: "length msgs = n"
    by (metis length_map length_upt diff_zero)
  then show "length (collect n msgs) = length (map snd msgs)"
    by (simp add: length_collect)
  fix i assume "i < length (collect n msgs)"
  then have i: "i < n" by (simp add: length_collect)
  have d: "distinct (map fst msgs)" by (simp add: assms)
  have "fst (msgs ! i) = i"
    using assms i len by (metis nth_map nth_upt add_0)
  then have "msgs ! i = (i, snd (msgs ! i))"
    by (metis prod.collapse)
  then have "(i, snd (msgs ! i)) \<in> set msgs"
    using i len by (metis nth_mem)
  then have "map_of msgs i = Some (snd (msgs ! i))"
    using d by simp
  then show "collect n msgs ! i = map snd msgs ! i"
    using d i len by (simp add: collect_nth)
qed

lemma workerJobs_indices:
  "workerJobs amParams fmParams numIterations assign workerRand jobs = Inr (ams, fms) \<Longrightarrow>
   map fst ams = map fst jobs \<and> map fst fms = map fst jobs"
proof (induction jobs arbitrary: workerRand ams fms)
  case Nil
  then show ?case by simp
next
  case (Cons job jobs)
  obtain i snr where job: "job = (i, snr)" by (cases job)
  from Cons.prems show ?case
    unfolding job
    by (auto simp: Let_def split: sum.splits prod.splits dest!: Cons.IH)
qed

lemma arrival_permutation:
  assumes "mset order = mset [0..<length msgs]"
  shows "mset (map (\<lambda>k. msgs ! k) order) = mset msgs"
proof -
  have "mset (map (\<lambda>k. msgs ! k) order) = image_mset (\<lambda>k. msgs ! k) (mset order)"
    by simp
  also have "\<dots> = image_mset (\<lambda>k. msgs ! k) (mset [0..<length msgs])"
    by (simp only: assms)
  also have "\<dots> = mset (map (\<lambda>k. msgs ! k) [0..<length msgs])"
    by simp
  also have "\<dots> = mset msgs"
    by (simp only: map_nth)
  finally show ?thesis .
qed

lemma collect_arrival:
  assumes "map fst msgs = [0..<n]" and "mset order = mset [0..<n]"
  shows "collect n (map (\<lambda>k. msgs ! k) order) = map snd msgs"
proof -
  from assms(1) have len: "length msgs = n"
    by (metis length_map length_upt diff_zero)
  have d: "distinct (map fst msgs)" by (simp add: assms(1))
  have "mset (map (\<lambda>k. msgs ! k) order) = mset msgs"
    using assms(2) len by (intro arrival_permutation) simp
  then have "collect n (map (\<lambda>k. msgs ! k) order) = collect n msgs"
    using d by (intro collect_permutation)
  then show ?thesis
    using assms(1) by (simp add: collect_in_order)
qed

text \<open>
  With at least one worker and a fixed assignment of jobs to workers, the parallel sweep
  returns the same AM and FM arrays whatever the order in which the results arrive:
  entry \<open>i\<close> of each array is the result of job \<open>i\<close>.
\<close>

lemma runParallel_collects_by_index:
  assumes "0 < NumWorkers config"
    and "mset amOrder = mset [0..<length (SNRRange config)]"
    and "mset fmOrder = mset [0..<length (SNRRange config)]"
  shows "runParallelMonteCarloSimulation newSource amParams fmParams config assign
           amOrder fmOrder
         = (case workerJobs amParams fmParams (NumIterations config) assign
                  (\<lambda>w. newSource (Seed config + of_nat w))
                  (zip [0..<length (SNRRange config)] (SNRRange config)) of
              Inl e \<Rightarrow> Inl e
            | Inr (ams, fms) \<Rightarrow> Inr (map snd ams, map snd fms))"
proof (cases "workerJobs amParams fmParams (NumIterations config) assign
                  (\<lambda>w. newSource (Seed config + of_nat w))
                  (zip [0..<length (SNRRange config)] (SNRRange config))")
  case (Inl e)
  with assms(1) show ?thesis
    by (simp add: runParallelMonteCarloSimulation_def Let_def)
next
  case (Inr msgs)
  obtain ams fms where msgs: "msgs = (ams, fms)" by (cases msgs)
  have idx: "map fst ams = [0..<length (SNRRange config)]"
    "map fst fms = [0..<length (SNRRange config)]"
    using workerJobs_indices [OF Inr [unfolded msgs]] by simp_all
  show ?thesis
    using assms(1) Inr
    by (simp add: runParallelMonteCarloSimulation_def Let_def msgs
        collect_arrival [OF idx(1) assms(2)] collect_arrival [OF idx(2) assms(3)])
qed

text \<open>
  When worker 0 takes every job, as it must when it is the only worker, the parallel
  sweep is the sequential sweep: one generator of seed \<open>base\<close>, carried through the AM run
  and the FM run of each point in turn.
\<close>

lemma workerJobs_single_worker:
  "length idxs = length snrs \<Longrightarrow>
   (case workerJobs amParams fmParams numIterations (\<lambda>i. 0) workerRand (zip idxs snrs) of
      Inl e \<Rightarrow> Inl e
    | Inr (ams, fms) \<Rightarrow> Inr (map snd ams, map snd fms))
   = sequentialLoop amParams fmParams numIterations snrs (workerRand 0)"
proof (induction idxs snrs arbitrary: workerRand rule: list_induct2)
  case Nil
  then show ?case by simp
next
  case (Cons i idxs snr snrs)
  have step: "sequentialLoop amParams fmParams numIterations snrs g
        = (case workerJobs amParams fmParams numIterations (\<lambda>i. 0) (workerRand(0 := g))
                  (zip idxs snrs) of
             Inl e \<Rightarrow> Inl e
           | Inr (ams, fms) \<Rightarrow> Inr (map snd ams, map snd fms))" for g
    by (simp only: Cons.IH [of "workerRand(0 := g)"] fun_upd_same)
  show ?case
    by (simp add: step Let_def split: sum.splits prod.splits)
qed

lemma runParallel_single_worker:
  assumes "0 < NumWorkers config"
    and "mset amOrder = mset [0..<length (SNRRange config)]"
    and "mset fmOrder = mset [0..<length (SNRRange config)]"
  shows "runParallelMonteCarloSimulation newSource amParams fmParams config (\<lambda>i. 0)
           amOrder fmOrder
         = runSequentialMonteCarloSimulation newSource amParams fmParams config"
  using workerJobs_single_worker [of "[0..<length (SNRRange config)]" "SNRRange config"
      amParams fmParams "NumIterations config" "\<lambda>w. newSource (Seed config + of_nat w)"]
  by (simp add: runParallel_collects_by_index [OF assms] runSequentialMonteCarloSimulation_def)

text \<open>
  Claim C1. Two invocations with the same seed, trial count and sweep are to return the
  same arrays whichever worker takes which job. On a sweep of two points with two
  workers the scheduler may hand both jobs to worker 0, or the second job to worker 1.
  In the first schedule the second point is computed on the generator of seed \<open>base\<close>
  as the first job has left it; in the second schedule it is computed on the fresh
  generator of seed \<open>base + 1\<close>. Everything else is the same in both: the AM run of a
  point starts from its worker's generator, the FM run continues from where the AM run
  stopped, and the order of arrival does not show.
\<close>

theorem RunPhase5_second_point_depends_on_worker:
  "validAssignment (twoPointConfig seed numIterations s0 s1) (\<lambda>i. 0)
   \<and> validAssignment (twoPointConfig seed numIterations s0 s1) (\<lambda>i. i)
   \<and> RunPhase5MonteCarloSimulation newSource amParams fmParams
        (twoPointConfig seed numIterations s0 s1) (\<lambda>i. 0) [0, 1] [0, 1]
       = twoPointSweep amParams fmParams numIterations s0 s1 (newSource seed) (\<lambda>g. g)
   \<and> RunPhase5MonteCarloSimulation newSource amParams fmParams
        (twoPointConfig seed numIterations s0 s1) (\<lambda>i. i) [0, 1] [0, 1]
       = twoPointSweep amParams fmParams numIterations s0 s1 (newSource seed)
           (\<lambda>g. newSource (seed + 1))
   \<and> RunPhase5MonteCarloSimulation newSource amParams fmParams
        (twoPointConfig seed numIterations s0 s1) (\<lambda>i. i) [1, 0] [1, 0]
       = twoPointSweep amParams fmParams numIterations s0 s1 (newSource seed)
           (\<lambda>g. newSource (seed + 1))"
  by (auto simp: RunPhase5MonteCarloSimulation_def runParallelMonteCarloSimulation_def
      validAssignment_def twoPointConfig_def twoPointSweep_def upt_rec collect_def Let_def
      split: sum.splits prod.splits)

text \<open>
  The sweep on the default generator collects in the same way: given the draws that
  fall to each trial, the order of arrival does not show in its result.
\<close>

lemma parallelJobs_indices:
  "parallelJobs modType params numTrials draws jobs = Inr msgs \<Longrightarrow>
   map fst msgs = map fst jobs"
proof (induction jobs arbitrary: msgs)
  case Nil
  then show ?case by simp
next
  case (Cons job jobs)
  obtain i snr where job: "job = (i, snr)" by (cases job)
  from Cons.prems show ?case
    unfolding job
    by (auto split: sum.splits if_splits dest!: Cons.IH)
qed

lemma simulateSNRPerformanceParallel_arrival_order:
  assumes "0 < numWorkers" and "mset order = mset [0..<length snrRange]"
  shows "simulateSNRPerformanceParallel modType params snrRange numTrials numWorkers
           draws order
         = (case parallelJobs modType params numTrials draws
                  (zip [0..<length snrRange] snrRange) of
              Inl e \<Rightarrow> Inl e
            | Inr msgs \<Rightarrow> Inr (map snd msgs))"
proof (cases "parallelJobs modType params numTrials draws (zip [0..<length snrRange] snrRange)")
  case (Inl e)
  with assms(1) show ?thesis
    by (simp add: simulateSNRPerformanceParallel_def Let_def)
next
  case (Inr msgs)
  have "map fst msgs = [0..<length snrRange]"
    using parallelJobs_indices [OF Inr] by simp
  then show ?thesis
    using assms Inr
    by (simp add: simulateSNRPerformanceParallel_def Let_def collect_arrival)
qed

section \<open>Properties of the run-sweep operation\<close>

lemma SNR_empty:
  "computeInputSNR emptySignal emptySignal = Inr NaN"
  "calculateSNR emptySignal emptySignal = Inr NaN"
  by (simp_all add: computeInputSNR_def calculateSNR_def emptySignal_def ofNat_def feq_def)

lemma defaultTrial_zeroDuration:
  "defaultTrial AM zeroDurationParams T b g = Inr (NaN, g)"
  "defaultTrial FM zeroDurationParams T b g = Inl IndexOutOfRange"
  using AM_neq_FM
  by (simp_all add: defaultTrial_def generators_zeroDuration addAWGN_empty SNR_empty
      demodulate_empty computeOutputSNR_def)

text \<open>
  The returned error is as claim C9 has it: not \<^verbatim>\<open>nil\<close> exactly when the seed is zero and
  the secure random source fails.
\<close>

lemma OptimizedMonteCarloSimulation_error:
  "(\<exists>am fm st. OptimizedMonteCarloSimulation env amParams fmParams config
                  = Inr (am, fm, st, Some err))
     \<longleftrightarrow> cfgSeed config = 0 \<and> cryptoRead env = Inl err"
  by (auto simp: OptimizedMonteCarloSimulation_def generateCryptoSeed_def Let_def
      split: sum.splits if_splits prod.splits)

text \<open>
  Claim C9. With a nonzero seed the run is to complete and return no error, there being
  no other failure mode. With seed 42, one trial and one sweep point the sequential run
  panics on the parameters of the ``Zero Duration'' test (the FM demodulator indexes the
  empty signal) and on those of the robustness test (the time vector has a negative
  length), whatever the environment.
\<close>

theorem OptimizedMonteCarloSimulation_panics:
  "OptimizedMonteCarloSimulation env zeroDurationParams zeroDurationParams seededConfig
     = Inl IndexOutOfRange
   \<and> OptimizedMonteCarloSimulation env invalidParams invalidParams seededConfig
     = Inl MakesliceLenOutOfRange"
  by (simp add: OptimizedMonteCarloSimulation_def seededConfig_def defaultTrial_zeroDuration
      makeslicePanics_def maxSliceLen_def)
     (simp add: defaultTrial_def generateBaseband_def generateTimeVector_def goInt_def
      invalidParams_def rounded_def rnd64_small makeslicePanics_def)

end
